theory Spec2Isabelle
  imports Complex_Main "HOL-Library.Word"
begin

unbundle bit_operations_syntax

section \<open>Runtime primitives used by the gateway adapters\<close>

text \<open>
  The adapters call Node's \<^verbatim>\<open>crypto\<close> module and \<^verbatim>\<open>Buffer\<close>. These are modelled
  here from their standards: SHA-256 (FIPS 180-4), HMAC (RFC 2104), lowercase hex and
  base64 (RFC 4648). A JavaScript string is modelled as the list of the bytes of its
  UTF-8 encoding, which is what \<^verbatim>\<open>hash.update(string)\<close> and \<^verbatim>\<open>Buffer.from(string)\<close>
  feed to the primitive.
\<close>

type_synonym u32 = "32 word"
type_synonym byte = "8 word"

subsection \<open>SHA-256\<close>

definition rotr :: "nat \<Rightarrow> u32 \<Rightarrow> u32" where
  "rotr n x = drop_bit n x OR push_bit (32 - n) x"

definition Ch :: "u32 \<Rightarrow> u32 \<Rightarrow> u32 \<Rightarrow> u32" where
  "Ch x y z = (x AND y) XOR (NOT x AND z)"

definition Maj :: "u32 \<Rightarrow> u32 \<Rightarrow> u32 \<Rightarrow> u32" where
  "Maj x y z = (x AND y) XOR (x AND z) XOR (y AND z)"

definition Sigma0 :: "u32 \<Rightarrow> u32" where
  "Sigma0 x = rotr 2 x XOR rotr 13 x XOR rotr 22 x"

definition Sigma1 :: "u32 \<Rightarrow> u32" where
  "Sigma1 x = rotr 6 x XOR rotr 11 x XOR rotr 25 x"

definition sigma0 :: "u32 \<Rightarrow> u32" where
  "sigma0 x = rotr 7 x XOR rotr 18 x XOR drop_bit 3 x"

definition sigma1 :: "u32 \<Rightarrow> u32" where
  "sigma1 x = rotr 17 x XOR rotr 19 x XOR drop_bit 10 x"

text \<open>The round constants, eight to a row.\<close>

definition K256 :: "u32 list" where
  "K256 =
     [0x428a2f98, 0x71374491, 0xb5c0fbcf, 0xe9b5dba5, 0x3956c25b, 0x59f111f1, 0x923f82a4, 0xab1c5ed5]
     @ [0xd807aa98, 0x12835b01, 0x243185be, 0x550c7dc3, 0x72be5d74, 0x80deb1fe, 0x9bdc06a7, 0xc19bf174]
     @ [0xe49b69c1, 0xefbe4786, 0x0fc19dc6, 0x240ca1cc, 0x2de92c6f, 0x4a7484aa, 0x5cb0a9dc, 0x76f988da]
     @ [0x983e5152, 0xa831c66d, 0xb00327c8, 0xbf597fc7, 0xc6e00bf3, 0xd5a79147, 0x06ca6351, 0x14292967]
     @ [0x27b70a85, 0x2e1b2138, 0x4d2c6dfc, 0x53380d13, 0x650a7354, 0x766a0abb, 0x81c2c92e, 0x92722c85]
     @ [0xa2bfe8a1, 0xa81a664b, 0xc24b8b70, 0xc76c51a3, 0xd192e819, 0xd6990624, 0xf40e3585, 0x106aa070]
     @ [0x19a4c116, 0x1e376c08, 0x2748774c, 0x34b0bcb5, 0x391c0cb3, 0x4ed8aa4a, 0x5b9cca4f, 0x682e6ff3]
     @ [0x748f82ee, 0x78a5636f, 0x84c87814, 0x8cc70208, 0x90befffa, 0xa4506ceb, 0xbef9a3f7, 0xc67178f2]"

type_synonym hstate = "u32 \<times> u32 \<times> u32 \<times> u32 \<times> u32 \<times> u32 \<times> u32 \<times> u32"

definition H256 :: hstate where
  "H256 = (0x6a09e667, 0xbb67ae85, 0x3c6ef372, 0xa54ff53a,
           0x510e527f, 0x9b05688c, 0x1f83d9ab, 0x5be0cd19)"

text \<open>Padding: the byte 0x80, zero bytes up to 56 modulo 64, the bit length in 64 bits.\<close>

definition be64 :: "nat \<Rightarrow> byte list" where
  "be64 n = map (\<lambda>i. ucast (drop_bit (8 * i) (of_nat n :: 64 word))) [7, 6, 5, 4, 3, 2, 1, 0]"

definition pad :: "byte list \<Rightarrow> byte list" where
  "pad m = m @ [0x80] @ replicate ((119 - length m mod 64) mod 64) 0 @ be64 (8 * length m)"

fun words_of :: "byte list \<Rightarrow> u32 list" where
  "words_of (a # b # c # d # r) =
     (push_bit 24 (ucast a) OR push_bit 16 (ucast b) OR push_bit 8 (ucast c) OR ucast d)
       # words_of r"
| "words_of _ = []"

text \<open>
  The message schedule is built in reverse (the head is the newest word), so that
  \<open>W\<^sub>t = \<sigma>\<^sub>1(W\<^sub>t\<^sub>-\<^sub>2) + W\<^sub>t\<^sub>-\<^sub>7 + \<sigma>\<^sub>0(W\<^sub>t\<^sub>-\<^sub>1\<^sub>5) + W\<^sub>t\<^sub>-\<^sub>1\<^sub>6\<close> reads the positions 1, 6, 14 and 15.
\<close>

fun schedule :: "nat \<Rightarrow> u32 list \<Rightarrow> u32 list" where
  "schedule 0 w = w"
| "schedule (Suc n) w =
     schedule n ((sigma1 (w ! 1) + w ! 6 + sigma0 (w ! 14) + w ! 15) # w)"

definition round256 :: "hstate \<Rightarrow> u32 \<times> u32 \<Rightarrow> hstate" where
  "round256 s kw =
     (case s of (a, b, c, d, e, f, g, h) \<Rightarrow>
        (let t1 = h + Sigma1 e + Ch e f g + fst kw + snd kw;
             t2 = Sigma0 a + Maj a b c
         in (t1 + t2, a, b, c, d + t1, e, f, g)))"

definition add_state :: "hstate \<Rightarrow> hstate \<Rightarrow> hstate" where
  "add_state s s' =
     (case s of (a, b, c, d, e, f, g, h) \<Rightarrow>
      case s' of (a', b', c', d', e', f', g', h') \<Rightarrow>
        (a + a', b + b', c + c', d + d', e + e', f + f', g + g', h + h'))"

definition compress :: "hstate \<Rightarrow> u32 list \<Rightarrow> hstate" where
  "compress s blk = add_state s (foldl round256 s (zip K256 (rev (schedule 48 (rev blk)))))"

fun blocks :: "nat \<Rightarrow> u32 list \<Rightarrow> u32 list list" where
  "blocks 0 ws = []"
| "blocks (Suc n) ws = take 16 ws # blocks n (drop 16 ws)"

definition sha256_state :: "byte list \<Rightarrow> hstate" where
  "sha256_state m =
     (let ws = words_of (pad m) in foldl compress H256 (blocks (length ws div 16) ws))"

definition be32 :: "u32 \<Rightarrow> byte list" where
  "be32 w = map (\<lambda>i. ucast (drop_bit (8 * i) w)) [3, 2, 1, 0]"

definition bytes_of_state :: "hstate \<Rightarrow> byte list" where
  "bytes_of_state s =
     (case s of (a, b, c, d, e, f, g, h) \<Rightarrow>
        be32 a @ be32 b @ be32 c @ be32 d @ be32 e @ be32 f @ be32 g @ be32 h)"

definition sha256 :: "byte list \<Rightarrow> byte list" where
  "sha256 m = bytes_of_state (sha256_state m)"

subsection \<open>HMAC-SHA256\<close>

definition hmac_key :: "byte list \<Rightarrow> byte list" where
  "hmac_key k =
     (let k' = (if length k > 64 then sha256 k else k) in k' @ replicate (64 - length k') 0)"

definition hmac_sha256 :: "byte list \<Rightarrow> byte list \<Rightarrow> byte list" where
  "hmac_sha256 k m =
     (let k0 = hmac_key k
      in sha256 (map (\<lambda>b. b XOR 0x5c) k0 @ sha256 (map (\<lambda>b. b XOR 0x36) k0 @ m)))"

subsection \<open>Strings, hex and base64\<close>

definition bytes_of :: "string \<Rightarrow> byte list" where
  "bytes_of s = map of_char s"

definition hexdigits :: string where
  "hexdigits = ''0123456789abcdef''"

definition hex_byte :: "byte \<Rightarrow> string" where
  "hex_byte b = [hexdigits ! (unat b div 16), hexdigits ! (unat b mod 16)]"

definition hex :: "byte list \<Rightarrow> string" where
  "hex bs = concat (map hex_byte bs)"

text \<open>\<^verbatim>\<open>crypto.createHash('sha256').update(s).digest('hex')\<close>\<close>

definition sha256_hex :: "string \<Rightarrow> string" where
  "sha256_hex s = hex (sha256 (bytes_of s))"

text \<open>\<^verbatim>\<open>crypto.createHmac('sha256', key).update(s).digest('hex')\<close>\<close>

definition hmac_sha256_hex :: "string \<Rightarrow> string \<Rightarrow> string" where
  "hmac_sha256_hex key s = hex (hmac_sha256 (bytes_of key) (bytes_of s))"

definition b64chars :: string where
  "b64chars = ''ABCDEFGHIJKLMNOPQRSTUVWXYZabcdefghijklmnopqrstuvwxyz0123456789+/''"

fun b64enc :: "nat list \<Rightarrow> string" where
  "b64enc (a # b # c # r) =
     (let n = (a * 256 + b) * 256 + c
      in [b64chars ! (n div 262144), b64chars ! (n div 4096 mod 64),
          b64chars ! (n div 64 mod 64), b64chars ! (n mod 64)] @ b64enc r)"
| "b64enc [a, b] =
     (let n = (a * 256 + b) * 256
      in [b64chars ! (n div 262144), b64chars ! (n div 4096 mod 64),
          b64chars ! (n div 64 mod 64), CHR ''=''])"
| "b64enc [a] =
     (let n = a * 65536
      in [b64chars ! (n div 262144), b64chars ! (n div 4096 mod 64), CHR ''='', CHR ''=''])"
| "b64enc [] = []"

text \<open>\<^verbatim>\<open>Buffer.from(s).toString('base64')\<close>\<close>

definition base64 :: "string \<Rightarrow> string" where
  "base64 s = b64enc (map of_char s)"

section \<open>Configuration and errors\<close>

text \<open>
  \<^verbatim>\<open>process.env\<close>: a variable that is not set reads as \<^verbatim>\<open>undefined\<close>, here \<open>None\<close>.
\<close>

record env =
  RAZORPAY_KEY_SECRET :: "string option"
  PHONEPE_SALT_KEY_env :: "string option"
  PHONEPE_SALT_INDEX_env :: "string option"
  PHONEPE_WEBHOOK_USER :: "string option"
  PHONEPE_WEBHOOK_PASS :: "string option"
  PHONEPE_CLIENT_ID :: "string option"
  PHONEPE_CLIENT_SECRET :: "string option"

text \<open>
  What a function throws. \<open>AuthFailure e\<close> is the object
  \<^verbatim>\<open>{ message: 'Failed to authenticate with PhonePe', error: e }\<close>.
\<close>

datatype exn = TypeError | AuthFailure string

text \<open>String conversion of a possibly undefined string, as \<^verbatim>\<open>+\<close> and template literals do it.\<close>

definition str :: "string option \<Rightarrow> string" where
  "str x = (case x of None \<Rightarrow> ''undefined'' | Some s \<Rightarrow> s)"

section \<open>Razorpay: verifyRazorpaySignature\<close>

record razorpay_params =
  orderId :: string
  paymentId :: string
  signature :: string

text \<open>
  \<^verbatim>\<open>crypto.createHmac\<close> throws a TypeError when the key is undefined; the \<^verbatim>\<open>catch\<close>
  block logs and rethrows.
\<close>

definition createHmac_sha256_hex :: "string option \<Rightarrow> string \<Rightarrow> exn + string" where
  "createHmac_sha256_hex key s =
     (case key of None \<Rightarrow> Inl TypeError | Some k \<Rightarrow> Inr (hmac_sha256_hex k s))"

definition verifyRazorpaySignature :: "env \<Rightarrow> razorpay_params \<Rightarrow> exn + bool" where
  "verifyRazorpaySignature cfg params =
     (case createHmac_sha256_hex (RAZORPAY_KEY_SECRET cfg)
             (orderId params @ ''|'' @ paymentId params) of
        Inl e \<Rightarrow> Inl e
      | Inr generated_signature \<Rightarrow> Inr (generated_signature = signature params))"

section \<open>PhonePe (salt-based): generatePhonePeSignature\<close>

definition PHONEPE_SALT_KEY :: "env \<Rightarrow> string option" where
  "PHONEPE_SALT_KEY cfg = PHONEPE_SALT_KEY_env cfg"

text \<open>\<^verbatim>\<open>process.env.PHONEPE_SALT_INDEX || '1'\<close>: unset and empty both give \<^verbatim>\<open>'1'\<close>.\<close>

definition PHONEPE_SALT_INDEX :: "env \<Rightarrow> string" where
  "PHONEPE_SALT_INDEX cfg =
     (case PHONEPE_SALT_INDEX_env cfg of
        None \<Rightarrow> ''1''
      | Some s \<Rightarrow> if s = [] then ''1'' else s)"

text \<open>
  \<^verbatim>\<open>requestBody + PHONEPE_SALT_KEY\<close> concatenates strings when either side is a string;
  \<^verbatim>\<open>undefined + undefined\<close> is the number NaN, on which \<^verbatim>\<open>hash.update\<close> throws a
  TypeError.
\<close>

definition generatePhonePeSignature :: "env \<Rightarrow> string option \<Rightarrow> exn + string" where
  "generatePhonePeSignature cfg requestBody =
     (if requestBody = None \<and> PHONEPE_SALT_KEY cfg = None then Inl TypeError
      else
        (let payload = str requestBody @ str (PHONEPE_SALT_KEY cfg);
             hash = sha256_hex payload
         in Inr (hash @ ''###'' @ PHONEPE_SALT_INDEX cfg)))"

definition verifyPhonePeSignature :: "env \<Rightarrow> string option \<Rightarrow> string option \<Rightarrow> exn + bool" where
  "verifyPhonePeSignature cfg requestBody xVerifyHeader =
     (case generatePhonePeSignature cfg requestBody of
        Inl e \<Rightarrow> Inl e
      | Inr sig \<Rightarrow> Inr (Some sig = xVerifyHeader))"

section \<open>JavaScript values\<close>

text \<open>
  The values a parsed JSON body can hold, and \<^verbatim>\<open>undefined\<close>. An object lists its own
  properties in enumeration order, each key once. Numbers are the integers that gateway
  payloads carry (amounts in paise, epoch times), below \<open>10\<^sup>2\<^sup>1\<close> in magnitude, where
  JavaScript prints them in plain decimal.
\<close>

datatype jsval =
    JUndefined
  | JNull
  | JBool bool
  | JNum int
  | JStr string
  | JArr "jsval list"
  | JObj "(string \<times> jsval) list"

text \<open>ToBoolean, as \<^verbatim>\<open>!x\<close> and \<^verbatim>\<open>x || y\<close> apply it.\<close>

fun truthy :: "jsval \<Rightarrow> bool" where
  "truthy JUndefined = False"
| "truthy JNull = False"
| "truthy (JBool b) = b"
| "truthy (JNum n) = (n \<noteq> 0)"
| "truthy (JStr s) = (s \<noteq> [])"
| "truthy (JArr xs) = True"
| "truthy (JObj ps) = True"

text \<open>
  A property read \<^verbatim>\<open>v.k\<close>: a TypeError on \<^verbatim>\<open>undefined\<close> and \<^verbatim>\<open>null\<close>,
  the own property of an object, and \<^verbatim>\<open>undefined\<close> where there is none. The keys the
  adapters read (\<^verbatim>\<open>event\<close>, \<^verbatim>\<open>payload\<close>, \<^verbatim>\<open>data\<close>, \<^verbatim>\<open>state\<close>, ...) are not
  properties of the prototypes of strings, numbers, booleans or arrays.
\<close>

fun get_prop :: "jsval \<Rightarrow> string \<Rightarrow> exn + jsval" where
  "get_prop JUndefined k = Inl TypeError"
| "get_prop JNull k = Inl TypeError"
| "get_prop (JObj ps) k = Inr (case map_of ps k of None \<Rightarrow> JUndefined | Some v \<Rightarrow> v)"
| "get_prop v k = Inr JUndefined"

text \<open>A chain of reads \<^verbatim>\<open>v.k1.k2\<close>, failing at the first TypeError.\<close>

fun get_path :: "jsval \<Rightarrow> string list \<Rightarrow> exn + jsval" where
  "get_path v [] = Inr v"
| "get_path v (k # ks) = (case get_prop v k of Inl e \<Rightarrow> Inl e | Inr x \<Rightarrow> get_path x ks)"

text \<open>Optional chaining \<^verbatim>\<open>v?.k\<close>.\<close>

definition opt_prop :: "jsval \<Rightarrow> string \<Rightarrow> jsval" where
  "opt_prop v k = (case get_prop v k of Inl e \<Rightarrow> JUndefined | Inr x \<Rightarrow> x)"

subsection \<open>JSON.stringify\<close>

fun digits :: "nat \<Rightarrow> string" where
  "digits n =
     (if n < 10 then [char_of (48 + n)] else digits (n div 10) @ [char_of (48 + n mod 10)])"

definition show_int :: "int \<Rightarrow> string" where
  "show_int i = (if i < 0 then CHR ''-'' # digits (nat (- i)) else digits (nat i))"

text \<open>QuoteJSONString: the escapes of ECMAScript; every other byte stands for itself.\<close>

definition quote_char :: "char \<Rightarrow> string" where
  "quote_char c =
     (if c = CHR 0x22 then [CHR 0x5C, CHR 0x22]
      else if c = CHR 0x5C then [CHR 0x5C, CHR 0x5C]
      else if c = CHR 0x08 then [CHR 0x5C, CHR ''b'']
      else if c = CHR 0x0C then [CHR 0x5C, CHR ''f'']
      else if c = CHR 0x0A then [CHR 0x5C, CHR ''n'']
      else if c = CHR 0x0D then [CHR 0x5C, CHR ''r'']
      else if c = CHR 0x09 then [CHR 0x5C, CHR ''t'']
      else if (of_char c :: nat) < 32 then [CHR 0x5C] @ ''u00'' @ hex_byte (of_char c)
      else [c])"

definition quote :: "string \<Rightarrow> string" where
  "quote s = [CHR 0x22] @ concat (map quote_char s) @ [CHR 0x22]"

fun join :: "string \<Rightarrow> string list \<Rightarrow> string" where
  "join sep [] = []"
| "join sep [x] = x"
| "join sep (x # y # ys) = x @ sep @ join sep (y # ys)"

text \<open>
  \<^verbatim>\<open>JSON.stringify(v)\<close> without replacer or indentation. It returns \<^verbatim>\<open>undefined\<close>
  (here \<open>None\<close>) for \<^verbatim>\<open>undefined\<close>; an undefined array element prints as \<^verbatim>\<open>null\<close> and
  an undefined property is left out.
\<close>

fun JSON_stringify :: "jsval \<Rightarrow> string option"
  and stringify_elems :: "jsval list \<Rightarrow> string list"
  and stringify_props :: "(string \<times> jsval) list \<Rightarrow> string list" where
  "JSON_stringify JUndefined = None"
| "JSON_stringify JNull = Some ''null''"
| "JSON_stringify (JBool b) = Some (if b then ''true'' else ''false'')"
| "JSON_stringify (JNum n) = Some (show_int n)"
| "JSON_stringify (JStr s) = Some (quote s)"
| "JSON_stringify (JArr xs) = Some (''['' @ join '','' (stringify_elems xs) @ '']'')"
| "JSON_stringify (JObj ps) = Some (''{'' @ join '','' (stringify_props ps) @ ''}'')"
| "stringify_elems [] = []"
| "stringify_elems (x # xs) =
     (case JSON_stringify x of None \<Rightarrow> ''null'' | Some s \<Rightarrow> s) # stringify_elems xs"
| "stringify_props [] = []"
| "stringify_props (p # ps) =
     (case JSON_stringify (snd p) of
        None \<Rightarrow> stringify_props ps
      | Some s \<Rightarrow> (quote (fst p) @ '':'' @ s) # stringify_props ps)"

section \<open>Razorpay: handleRazorpayWebhook\<close>

text \<open>
  The body of the \<^verbatim>\<open>try\<close> block, statement by statement; the \<^verbatim>\<open>catch\<close> block logs and
  rethrows, so an exception of the body is the exception of the function. The first
  statement reads \<^verbatim>\<open>webhookData.event\<close> for the log line. \<^verbatim>\<open>shasum.update\<close> throws a
  TypeError on \<^verbatim>\<open>undefined\<close>.
\<close>

definition invalid_signature :: jsval where
  "invalid_signature = JObj [(''valid'', JBool False), (''message'', JStr ''Invalid signature'')]"

definition razorpay_event :: "jsval \<Rightarrow> jsval \<Rightarrow> exn + jsval" where
  "razorpay_event event payload =
     (if event = JStr ''payment.authorized'' then
        (case get_path payload [''payment'', ''entity'', ''id''] of
           Inl e \<Rightarrow> Inl e
         | Inr pid \<Rightarrow>
             Inr (JObj [(''valid'', JBool True), (''event'', event), (''paymentId'', pid),
                        (''status'', JStr ''success'')]))
      else if event = JStr ''payment.failed'' then
        (case get_path payload [''payment'', ''entity'', ''id''] of
           Inl e \<Rightarrow> Inl e
         | Inr pid \<Rightarrow>
            (case get_path payload [''payment'', ''entity'', ''error_description''] of
               Inl e \<Rightarrow> Inl e
             | Inr reason \<Rightarrow>
                 Inr (JObj [(''valid'', JBool True), (''event'', event), (''paymentId'', pid),
                            (''status'', JStr ''failed''), (''reason'', reason)])))
      else if event = JStr ''payment.captured'' then
        (case get_path payload [''payment'', ''entity'', ''id''] of
           Inl e \<Rightarrow> Inl e
         | Inr pid \<Rightarrow>
             Inr (JObj [(''valid'', JBool True), (''event'', event), (''paymentId'', pid),
                        (''status'', JStr ''captured'')]))
      else if event = JStr ''refund.created'' then
        (case get_path payload [''refund'', ''entity'', ''id''] of
           Inl e \<Rightarrow> Inl e
         | Inr rid \<Rightarrow>
            (case get_path payload [''refund'', ''entity'', ''payment_id''] of
               Inl e \<Rightarrow> Inl e
             | Inr pid \<Rightarrow>
                 Inr (JObj [(''valid'', JBool True), (''event'', event), (''refundId'', rid),
                            (''status'', JStr ''refunded'')])))
      else Inr (JObj [(''valid'', JBool True), (''event'', event), (''processed'', JBool False)]))"

definition handleRazorpayWebhook :: "env \<Rightarrow> jsval \<Rightarrow> string option \<Rightarrow> exn + jsval" where
  "handleRazorpayWebhook cfg webhookData webhookSignature =
     (case get_prop webhookData ''event'' of
        Inl e \<Rightarrow> Inl e
      | Inr event \<Rightarrow>
         (case RAZORPAY_KEY_SECRET cfg of
            None \<Rightarrow> Inl TypeError
          | Some secret \<Rightarrow>
             (case JSON_stringify webhookData of
                None \<Rightarrow> Inl TypeError
              | Some body \<Rightarrow>
                 (let digest = hmac_sha256_hex secret body
                  in if Some digest \<noteq> webhookSignature then Inr invalid_signature
                     else
                       (case get_prop webhookData ''payload'' of
                          Inl e \<Rightarrow> Inl e
                        | Inr payload \<Rightarrow> razorpay_event event payload)))))"

section \<open>PhonePe (salt-based): handlePhonePeWebhook\<close>

text \<open>\<^verbatim>\<open>s.replace(p, '')\<close> with a string pattern: the first occurrence of \<open>p\<close> is removed.\<close>

fun remove_first :: "string \<Rightarrow> string \<Rightarrow> string" where
  "remove_first p [] = []"
| "remove_first p (c # cs) =
     (if take (length p) (c # cs) = p then drop (length p) (c # cs)
      else c # remove_first p cs)"

definition invalid_authentication :: jsval where
  "invalid_authentication =
     JObj [(''valid'', JBool False), (''message'', JStr ''Invalid authentication'')]"

text \<open>
  The parameter \<open>decode\<close> stands for the expression
  \<^verbatim>\<open>JSON.parse(Buffer.from(x, 'base64').toString('utf-8'))\<close> of the inner \<^verbatim>\<open>try\<close>:
  \<open>Some v\<close> when it evaluates to \<open>v\<close>, \<open>None\<close> when \<^verbatim>\<open>Buffer.from\<close> or
  \<^verbatim>\<open>JSON.parse\<close> throws. The read \<^verbatim>\<open>data.response\<close> is inside that \<^verbatim>\<open>try\<close> and again
  in its \<^verbatim>\<open>catch\<close>, so its TypeError leaves the function.
\<close>

definition phonepe_result :: "jsval \<Rightarrow> exn + jsval" where
  "phonepe_result responseData =
     (case get_prop responseData ''merchantTransactionId'' of
        Inl e \<Rightarrow> Inl e
      | Inr tid \<Rightarrow>
          Inr (JObj [(''valid'', JBool True),
                     (''transactionId'', tid),
                     (''status'', opt_prop responseData ''state''),
                     (''responseCode'', opt_prop responseData ''responseCode''),
                     (''amount'', opt_prop responseData ''amount''),
                     (''timestamp'', opt_prop responseData ''transactionDate''),
                     (''success'', JBool (opt_prop responseData ''state'' = JStr ''COMPLETED''))]))"

text \<open>\<^verbatim>\<open>Buffer.from(`${USER}:${PASS}`).toString('base64')\<close>\<close>

definition expectedAuth :: "env \<Rightarrow> string" where
  "expectedAuth cfg =
     base64 (str (PHONEPE_WEBHOOK_USER cfg) @ '':'' @ str (PHONEPE_WEBHOOK_PASS cfg))"

text \<open>\<^verbatim>\<open>authHeader?.replace('Basic ', '') || ''\<close>\<close>

definition providedAuth :: "string option \<Rightarrow> string" where
  "providedAuth authHeader =
     (case authHeader of None \<Rightarrow> [] | Some h \<Rightarrow> remove_first ''Basic '' h)"

definition handlePhonePeWebhook_salt ::
  "(jsval \<Rightarrow> jsval option) \<Rightarrow> env \<Rightarrow> jsval \<Rightarrow> string option \<Rightarrow> string option \<Rightarrow> exn + jsval" where
  "handlePhonePeWebhook_salt decode cfg webhookData xVerifyHeader authHeader =
     (if providedAuth authHeader \<noteq> expectedAuth cfg then Inr invalid_authentication
      else
        (let webhookBody = JSON_stringify webhookData
         in case verifyPhonePeSignature cfg webhookBody xVerifyHeader of
              Inl e \<Rightarrow> Inl e
            | Inr isValidSignature \<Rightarrow>
                if \<not> isValidSignature then Inr invalid_signature
                else
                  (case get_prop webhookData ''data'' of
                     Inl e \<Rightarrow> Inl e
                   | Inr data \<Rightarrow>
                      (case get_prop data ''response'' of
                         Inl e \<Rightarrow> Inl e
                       | Inr response \<Rightarrow>
                           phonepe_result
                             (case decode response of None \<Rightarrow> response | Some v \<Rightarrow> v)))))"

section \<open>PhonePe (OAuth): handlePhonePeWebhook\<close>

text \<open>
  \<^verbatim>\<open>const { data, success } = webhookData || {}\<close> reads both properties of the body, or
  of the empty object when the body is falsy.
\<close>

definition invalid_format :: jsval where
  "invalid_format =
     JObj [(''processed'', JBool False), (''message'', JStr ''Invalid webhook format'')]"

definition handlePhonePeWebhook_oauth :: "jsval \<Rightarrow> exn + jsval" where
  "handlePhonePeWebhook_oauth webhookData =
     (let src = (if truthy webhookData then webhookData else JObj [])
      in case get_prop src ''data'' of
           Inl e \<Rightarrow> Inl e
         | Inr data \<Rightarrow>
            (case get_prop src ''success'' of
               Inl e \<Rightarrow> Inl e
             | Inr success \<Rightarrow>
                 if \<not> truthy webhookData \<or> \<not> truthy data then Inr invalid_format
                 else
                   Inr (JObj [(''processed'', JBool True),
                              (''orderId'', opt_prop data ''merchantOrderId''),
                              (''status'', opt_prop data ''state''),
                              (''amount'', opt_prop data ''amount''),
                              (''success'', success)])))"

section \<open>PhonePe (OAuth): getAccessToken\<close>

text \<open>
  The module variable \<^verbatim>\<open>tokenCache\<close>. Times are milliseconds since the epoch, as
  \<^verbatim>\<open>Date.now()\<close> gives them. \<^verbatim>\<open>expiresAt\<close> starts as \<^verbatim>\<open>null\<close> and is NaN when the
  response had no numeric \<^verbatim>\<open>expires_in\<close>.
\<close>

datatype jstime = TNull | TNaN | TNum int

record token_cache =
  accessToken :: "string option"
  expiresAt :: jstime

definition empty_cache :: token_cache where
  "empty_cache = \<lparr>accessToken = None, expiresAt = TNull\<rparr>"

text \<open>\<^verbatim>\<open>t > now\<close>: \<^verbatim>\<open>null\<close> counts as 0 and NaN compares false.\<close>

fun time_gt :: "jstime \<Rightarrow> int \<Rightarrow> bool" where
  "time_gt TNull now = (0 > now)"
| "time_gt TNaN now = False"
| "time_gt (TNum t) now = (t > now)"

text \<open>Truthiness of a string that may be \<^verbatim>\<open>null\<close> or \<^verbatim>\<open>undefined\<close>.\<close>

definition present :: "string option \<Rightarrow> bool" where
  "present x = (case x of None \<Rightarrow> False | Some s \<Rightarrow> s \<noteq> [])"

definition cache_valid :: "token_cache \<Rightarrow> int \<Rightarrow> bool" where
  "cache_valid c now = (present (accessToken c) \<and> time_gt (expiresAt c) now)"

text \<open>The \<^verbatim>\<open>data\<close> of the identity endpoint's response.\<close>

record oauth_response =
  access_token :: "string option"
  expires_in :: "int option"

text \<open>
  \<^verbatim>\<open>getAccessToken\<close> runs in two parts, split at its only \<^verbatim>\<open>await\<close>. The first part
  reads the cache at time \<open>now\<close> and returns the cached token, or fails on missing
  credentials, or sends the token request. The second part resumes with the outcome of
  the request (\<open>Inl msg\<close> when axios rejects) at a later time and writes the cache.
\<close>

datatype start = Cached string | Failed exn | Fetch

definition getAccessToken_start :: "env \<Rightarrow> token_cache \<Rightarrow> int \<Rightarrow> start" where
  "getAccessToken_start cfg c now =
     (if cache_valid c now then Cached (str (accessToken c))
      else if \<not> present (PHONEPE_CLIENT_ID cfg) \<or> \<not> present (PHONEPE_CLIENT_SECRET cfg) then
        Failed (AuthFailure
          ''PhonePe credentials not configured. Set PHONEPE_CLIENT_ID and PHONEPE_CLIENT_SECRET in .env'')
      else Fetch)"

definition getAccessToken_finish ::
  "token_cache \<Rightarrow> string + oauth_response \<Rightarrow> int \<Rightarrow> (exn + string) \<times> token_cache" where
  "getAccessToken_finish c outcome now =
     (case outcome of
        Inl msg \<Rightarrow> (Inl (AuthFailure msg), c)
      | Inr r \<Rightarrow>
          if \<not> present (access_token r) then (Inl (AuthFailure ''No access token in response''), c)
          else
            (let expiry = (case expires_in r of
                             None \<Rightarrow> TNaN
                           | Some e \<Rightarrow> TNum (now + (e - 60) * 1000))
             in (Inr (str (access_token r)),
                 \<lparr>accessToken = access_token r, expiresAt = expiry\<rparr>)))"

text \<open>
  One call run to its end with nothing in between: the result, the cache afterwards and
  the number of token requests sent.
\<close>

definition getAccessToken ::
  "env \<Rightarrow> token_cache \<Rightarrow> int \<Rightarrow> string + oauth_response \<Rightarrow> int
     \<Rightarrow> (exn + string) \<times> token_cache \<times> nat" where
  "getAccessToken cfg c now outcome now' =
     (case getAccessToken_start cfg c now of
        Cached t \<Rightarrow> (Inr t, c, 0)
      | Failed e \<Rightarrow> (Inl e, c, 0)
      | Fetch \<Rightarrow> (case getAccessToken_finish c outcome now' of (r, c') \<Rightarrow> (r, c', 1)))"

subsection \<open>Interleaved callers\<close>

text \<open>
  JavaScript runs each part of an async function to its \<^verbatim>\<open>await\<close> without interruption,
  so concurrent callers interleave part by part. An event is a caller entering
  \<^verbatim>\<open>getAccessToken\<close> at a time, or the response to a caller's request arriving.
\<close>

datatype event =
    Call nat int
  | Response nat "string + oauth_response" int

record system =
  cache :: token_cache
  fetches :: nat
  waiting :: "nat list"
  returned :: "(nat \<times> (exn + string)) list"

definition initial :: system where
  "initial = \<lparr>cache = empty_cache, fetches = 0, waiting = [], returned = []\<rparr>"

fun step :: "env \<Rightarrow> system \<Rightarrow> event \<Rightarrow> system" where
  "step cfg s (Call c now) =
     (case getAccessToken_start cfg (cache s) now of
        Cached t \<Rightarrow> s\<lparr>returned := returned s @ [(c, Inr t)]\<rparr>
      | Failed e \<Rightarrow> s\<lparr>returned := returned s @ [(c, Inl e)]\<rparr>
      | Fetch \<Rightarrow> s\<lparr>fetches := fetches s + 1, waiting := waiting s @ [c]\<rparr>)"
| "step cfg s (Response c outcome now) =
     (if c \<in> set (waiting s) then
        (case getAccessToken_finish (cache s) outcome now of
           (r, c') \<Rightarrow>
             s\<lparr>cache := c', waiting := remove1 c (waiting s),
               returned := returned s @ [(c, r)]\<rparr>)
      else s)"

definition run :: "env \<Rightarrow> system \<Rightarrow> event list \<Rightarrow> system" where
  "run cfg s evs = foldl (step cfg) s evs"

fun is_call :: "event \<Rightarrow> bool" where
  "is_call (Call c now) = True"
| "is_call (Response c outcome now) = False"

section \<open>Amounts in paise\<close>

text \<open>
  A JavaScript number is an IEEE-754 binary64 double. A finite double is modelled by the
  rational it denotes, and \<open>fl\<close> rounds a rational to the nearest double, ties to even,
  as the literal parser and \<^verbatim>\<open>*\<close> do. The model covers the normal range (magnitudes
  from \<open>2\<^sup>-\<^sup>1\<^sup>0\<^sup>2\<^sup>2\<close> up to \<open>2\<^sup>1\<^sup>0\<^sup>2\<^sup>4\<close>), which holds every amount of money.
\<close>

text \<open>The number of bits of a positive integer.\<close>

function bitlen :: "int \<Rightarrow> nat" where
  "bitlen n = (if n \<le> 0 then 0 else Suc (bitlen (n div 2)))"
  by pat_completeness auto
termination
  by (relation "measure nat") auto

declare bitlen.simps [simp del]

definition pow2 :: "int \<Rightarrow> rat" where
  "pow2 e = (if 0 \<le> e then 2 ^ nat e else 1 / 2 ^ nat (- e))"

text \<open>\<open>\<lfloor>log\<^sub>2 q\<rfloor>\<close> for \<open>q > 0\<close>, from the bit lengths of numerator and denominator.\<close>

definition ilog2 :: "rat \<Rightarrow> int" where
  "ilog2 q =
     (case quotient_of q of
        (a, b) \<Rightarrow>
          (let d = int (bitlen a) - int (bitlen b)
           in if pow2 d \<le> q then d else d - 1))"

definition round_half_even :: "rat \<Rightarrow> int" where
  "round_half_even m =
     (let f = \<lfloor>m\<rfloor>; r = m - of_int f
      in if r < 1 / 2 then f else if 1 / 2 < r then f + 1 else if even f then f else f + 1)"

definition fl_pos :: "rat \<Rightarrow> rat" where
  "fl_pos q = (let e = ilog2 q - 52 in of_int (round_half_even (q / pow2 e)) * pow2 e)"

definition fl :: "rat \<Rightarrow> rat" where
  "fl q = (if q = 0 then 0 else if 0 < q then fl_pos q else - fl_pos (- q))"

text \<open>\<^verbatim>\<open>Math.round\<close>: the nearest integer, a tie going up.\<close>

definition Math_round :: "rat \<Rightarrow> int" where
  "Math_round y = \<lfloor>y + 1 / 2\<rfloor>"

text \<open>
  \<^verbatim>\<open>Math.round(amount * 100)\<close>, the conversion in \<^verbatim>\<open>createRazorpayOrder\<close>, in both
  \<^verbatim>\<open>createPhonePeOrder\<close> and in both \<^verbatim>\<open>refundPhonePePayment\<close>; \<open>amount\<close> is a double.
\<close>

definition amountInPaise :: "rat \<Rightarrow> int" where
  "amountInPaise amount = Math_round (fl (amount * 100))"

text \<open>The double that a decimal amount in a request body is parsed to.\<close>

definition parse_decimal :: "rat \<Rightarrow> rat" where
  "parse_decimal x = fl x"

section \<open>Validators: validateAmount\<close>

datatype jsnum = NaN | NegInfinity | Fin rat | PosInfinity

text \<open>
  The argument of \<^verbatim>\<open>validateAmount\<close>: any JavaScript value. \<open>AObj s\<close> is an object or
  array whose conversion to a primitive gives the string \<open>s\<close>.
\<close>

datatype amount_value =
    AUndefined
  | ANull
  | ABool bool
  | ANum jsnum
  | AStr string
  | AObj string

fun amount_truthy :: "amount_value \<Rightarrow> bool" where
  "amount_truthy AUndefined = False"
| "amount_truthy ANull = False"
| "amount_truthy (ABool b) = b"
| "amount_truthy (ANum n) = (n \<noteq> NaN \<and> n \<noteq> Fin 0)"
| "amount_truthy (AStr s) = (s \<noteq> [])"
| "amount_truthy (AObj s) = True"

text \<open>
  \<^verbatim>\<open>Number(amount)\<close>. The parameter \<open>StringToNumber\<close> is ECMAScript's conversion of a
  string to a number.
\<close>

fun Number :: "(string \<Rightarrow> jsnum) \<Rightarrow> amount_value \<Rightarrow> jsnum" where
  "Number StringToNumber AUndefined = NaN"
| "Number StringToNumber ANull = Fin 0"
| "Number StringToNumber (ABool b) = Fin (if b then 1 else 0)"
| "Number StringToNumber (ANum n) = n"
| "Number StringToNumber (AStr s) = StringToNumber s"
| "Number StringToNumber (AObj s) = StringToNumber s"

fun num_le :: "jsnum \<Rightarrow> rat \<Rightarrow> bool" where
  "num_le NaN q = False"
| "num_le NegInfinity q = True"
| "num_le (Fin x) q = (x \<le> q)"
| "num_le PosInfinity q = False"

fun num_less :: "jsnum \<Rightarrow> rat \<Rightarrow> bool" where
  "num_less NaN q = False"
| "num_less NegInfinity q = True"
| "num_less (Fin x) q = (x < q)"
| "num_less PosInfinity q = False"

fun num_ge :: "jsnum \<Rightarrow> rat \<Rightarrow> bool" where
  "num_ge NaN q = False"
| "num_ge NegInfinity q = False"
| "num_ge (Fin x) q = (q \<le> x)"
| "num_ge PosInfinity q = True"

record validation =
  valid :: bool
  error :: "string option"

text \<open>
  The last message holds, between \<^verbatim>\<open>is \<close> and \<^verbatim>\<open>1\<close>, the seven bytes that the source
  file has there (C3 A2 E2 80 9A C2 B9).
\<close>

definition validateAmount :: "(string \<Rightarrow> jsnum) \<Rightarrow> amount_value \<Rightarrow> validation" where
  "validateAmount StringToNumber amount =
     (if \<not> amount_truthy amount then \<lparr>valid = False, error = Some ''Amount is required''\<rparr>
      else
        (let amountNum = Number StringToNumber amount
         in if amountNum = NaN \<or> num_le amountNum 0 then
              \<lparr>valid = False, error = Some ''Amount must be a positive number''\<rparr>
            else if num_less amountNum 1 then
              \<lparr>valid = False,
               error = Some (''Minimum amount is ''
                 @ [CHR 0xC3, CHR 0xA2, CHR 0xE2, CHR 0x80, CHR 0x9A, CHR 0xC2, CHR 0xB9] @ ''1'')\<rparr>
            else \<lparr>valid = True, error = None\<rparr>))"

section \<open>Example inputs\<close>

definition example_env :: env where
  "example_env =
     \<lparr>RAZORPAY_KEY_SECRET = Some ''s3cr3t'',
      PHONEPE_SALT_KEY_env = Some ''SALT1'',
      PHONEPE_SALT_INDEX_env = Some ''1'',
      PHONEPE_WEBHOOK_USER = Some ''user'',
      PHONEPE_WEBHOOK_PASS = Some ''pass'',
      PHONEPE_CLIENT_ID = Some ''client'',
      PHONEPE_CLIENT_SECRET = Some ''secret''\<rparr>"

text \<open>
  A decoder for the examples: it knows the base64 text of the one JSON document the
  examples send and fails on everything else.
\<close>

definition example_decode :: "jsval \<Rightarrow> jsval option" where
  "example_decode v =
     (if v = JStr ''eyJzdGF0ZSI6IkNPTVBMRVRFRCJ9''
      then Some (JObj [(''state'', JStr ''COMPLETED'')]) else None)"

definition captured_body :: jsval where
  "captured_body =
     JObj [(''event'', JStr ''payment.captured''),
           (''payload'', JObj [(''payment'', JObj [(''entity'', JObj [(''id'', JStr ''pay_1'')])])])]"

definition completed_body :: jsval where
  "completed_body = JObj [(''data'', JObj [(''response'', JStr ''eyJzdGF0ZSI6IkNPTVBMRVRFRCJ9'')])]"

definition example_response :: oauth_response where
  "example_response = \<lparr>access_token = Some ''tok'', expires_in = Some 3600\<rparr>"

section \<open>The specification's event table\<close>

text \<open>
  The normalized status that the specification gives to each known Razorpay event, and
  where the handler reads the entity of that event.
\<close>

definition spec_status :: "string \<Rightarrow> string option" where
  "spec_status ev =
     (if ev = ''payment.authorized'' then Some ''success''
      else if ev = ''payment.failed'' then Some ''failed''
      else if ev = ''payment.captured'' then Some ''captured''
      else if ev = ''refund.created'' then Some ''refunded''
      else None)"

definition entity_path :: "string \<Rightarrow> string list" where
  "entity_path ev =
     (if ev = ''refund.created'' then [''payload'', ''refund'', ''entity'']
      else [''payload'', ''payment'', ''entity''])"

text \<open>The hash part of an \<^verbatim>\<open>X-VERIFY\<close> value: what stands before the first \<^verbatim>\<open>#\<close>.\<close>

definition hash_part :: "string \<Rightarrow> string" where
  "hash_part sig = takeWhile (\<lambda>c. c \<noteq> CHR ''#'') sig"

section \<open>Properties of the primitives\<close>

lemma length_be32: "length (be32 w) = 4"
  by (simp add: be32_def)

lemma length_bytes_of_state: "length (bytes_of_state s) = 32"
  by (simp add: bytes_of_state_def length_be32 split: prod.split)

lemma length_sha256: "length (sha256 m) = 32"
  by (simp add: sha256_def length_bytes_of_state)

lemma length_hex: "length (hex bs) = 2 * length bs"
  by (induction bs) (simp_all add: hex_def hex_byte_def)

lemma length_sha256_hex: "length (sha256_hex s) = 64"
  by (simp add: sha256_hex_def length_hex length_sha256)

lemma length_hmac_sha256_hex: "length (hmac_sha256_hex k s) = 64"
  by (simp add: hmac_sha256_hex_def hmac_sha256_def Let_def length_hex length_sha256)

text \<open>
  The model of SHA-256 on the test vector of FIPS 180-4 and on the example of the
  specification, and the two base64 texts of the examples.
\<close>

lemma sha256_abc:
  "sha256_hex ''abc'' = ''ba7816bf8f01cfea414140de5dae2223b00361a396177a9cb410ff61f20015ad''"
  by code_simp

lemma sha256_salt_example:
  "sha256_hex ''eyJhIjoxfQ==SALT1''
     = ''617631c84ab8cb0c7d99dd7499b8e369d0cb561865d41145469b10ec7eb5707d''"
  by code_simp

lemma hexdigit_mem: "n < 16 \<Longrightarrow> hexdigits ! n \<in> set hexdigits"
  by (rule nth_mem) (simp add: hexdigits_def)

lemma set_hex_byte: "set (hex_byte b) \<subseteq> set hexdigits"
proof -
  have "unat b < 256" using unsigned_less [of b] by simp
  then have "unat b div 16 < 16" by simp
  then show ?thesis by (simp add: hex_byte_def hexdigit_mem)
qed

lemma set_hex: "set (hex bs) \<subseteq> set hexdigits"
  using set_hex_byte by (auto simp: hex_def)

lemma hash_no_hash_sign: "CHR ''#'' \<notin> set (sha256_hex s)"
  using set_hex [of "sha256 (bytes_of s)"] by (auto simp: sha256_hex_def hexdigits_def)

section \<open>Razorpay signature verification\<close>

text \<open>
  C1. With the Razorpay secret configured, \<^verbatim>\<open>verifyRazorpaySignature\<close> returns true if
  and only if the signature equals the HMAC-SHA256 digest of \<^verbatim>\<open>orderId|paymentId\<close> under
  the secret, written in lowercase hex; the signature \<^verbatim>\<open>0000\<close> is never accepted.
\<close>

theorem verifyRazorpaySignature_iff:
  assumes "RAZORPAY_KEY_SECRET cfg = Some secret"
  shows "verifyRazorpaySignature cfg \<lparr>orderId = oid, paymentId = pid, signature = sg\<rparr>
           = Inr (sg = hmac_sha256_hex secret (oid @ ''|'' @ pid))
         \<and> set (hmac_sha256_hex secret (oid @ ''|'' @ pid)) \<subseteq> set ''0123456789abcdef''
         \<and> verifyRazorpaySignature cfg \<lparr>orderId = oid, paymentId = pid, signature = ''0000''\<rparr>
           = Inr False"
proof -
  have "length (hmac_sha256_hex secret (oid @ ''|'' @ pid)) = 64"
    by (rule length_hmac_sha256_hex)
  then have "hmac_sha256_hex secret (oid @ ''|'' @ pid) \<noteq> ''0000''" by auto
  moreover have "set (hmac_sha256_hex secret (oid @ ''|'' @ pid)) \<subseteq> set ''0123456789abcdef''"
    using set_hex by (simp add: hmac_sha256_hex_def hexdigits_def)
  ultimately show ?thesis
    using assms by (auto simp: verifyRazorpaySignature_def createHmac_sha256_hex_def)
qed

theorem verifyRazorpaySignature_witness:
  "verifyRazorpaySignature example_env
     \<lparr>orderId = ''order_abc'', paymentId = ''pay_xyz'',
      signature = hmac_sha256_hex ''s3cr3t'' ''order_abc|pay_xyz''\<rparr> = Inr True
   \<and> verifyRazorpaySignature example_env
     \<lparr>orderId = ''order_abc'', paymentId = ''pay_xyz'', signature = ''0000''\<rparr> = Inr False"
  using verifyRazorpaySignature_iff [of example_env "''s3cr3t''" "''order_abc''" "''pay_xyz''"
      "hmac_sha256_hex ''s3cr3t'' ''order_abc|pay_xyz''"]
  by (simp add: example_env_def)

lemma hash_part_signature: "hash_part (sha256_hex s @ CHR ''#'' # r) = sha256_hex s"
proof -
  have "takeWhile (\<lambda>c. c \<noteq> CHR ''#'') (sha256_hex s @ CHR ''#'' # r)
          = sha256_hex s @ takeWhile (\<lambda>c. c \<noteq> CHR ''#'') (CHR ''#'' # r)"
    by (rule takeWhile_append2) (use hash_no_hash_sign [of s] in auto)
  then show ?thesis by (simp add: hash_part_def)
qed

section \<open>PhonePe salt signature\<close>

text \<open>
  C3 (amended). With the salt key configured, \<^verbatim>\<open>generatePhonePeSignature\<close> returns the
  lowercase hex SHA-256 digest of payload followed by salt key, then \<^verbatim>\<open>###\<close> and the
  salt index. The hash part is 64 hex characters and is a function of the concatenation
  of payload and salt key alone: the salt index only changes what follows \<^verbatim>\<open>###\<close>.
\<close>

theorem generatePhonePeSignature_format:
  assumes "PHONEPE_SALT_KEY_env cfg = Some saltKey"
  shows "generatePhonePeSignature cfg (Some payload)
           = Inr (sha256_hex (payload @ saltKey) @ ''###'' @ PHONEPE_SALT_INDEX cfg)
         \<and> hash_part (sha256_hex (payload @ saltKey) @ ''###'' @ PHONEPE_SALT_INDEX cfg)
           = sha256_hex (payload @ saltKey)
         \<and> length (sha256_hex (payload @ saltKey)) = 64
         \<and> set (sha256_hex (payload @ saltKey)) \<subseteq> set ''0123456789abcdef''"
proof -
  have "set (sha256_hex (payload @ saltKey)) \<subseteq> set ''0123456789abcdef''"
    using set_hex by (simp add: sha256_hex_def hexdigits_def)
  then show ?thesis
    using assms
    by (simp add: generatePhonePeSignature_def PHONEPE_SALT_KEY_def str_def
        hash_part_signature length_sha256_hex)
qed

theorem generatePhonePeSignature_witness:
  "generatePhonePeSignature example_env (Some ''eyJhIjoxfQ=='')
     = Inr ''617631c84ab8cb0c7d99dd7499b8e369d0cb561865d41145469b10ec7eb5707d###1''
   \<and> hash_part ''617631c84ab8cb0c7d99dd7499b8e369d0cb561865d41145469b10ec7eb5707d###1''
     = ''617631c84ab8cb0c7d99dd7499b8e369d0cb561865d41145469b10ec7eb5707d''"
  using generatePhonePeSignature_format [of example_env "''SALT1''" "''eyJhIjoxfQ==''"]
  by (simp add: example_env_def PHONEPE_SALT_INDEX_def sha256_salt_example)

text \<open>
  C3 as stated fails: changing the salt index from \<^verbatim>\<open>1\<close> to \<^verbatim>\<open>2\<close> changes an input
  byte and leaves the hash part as it was.
\<close>

theorem generatePhonePeSignature_index_counterexample:
  "generatePhonePeSignature (example_env\<lparr>PHONEPE_SALT_INDEX_env := Some ''2''\<rparr>)
     (Some ''eyJhIjoxfQ=='') = Inr (sha256_hex ''eyJhIjoxfQ==SALT1'' @ ''###2'')
   \<and> generatePhonePeSignature example_env (Some ''eyJhIjoxfQ=='')
     = Inr (sha256_hex ''eyJhIjoxfQ==SALT1'' @ ''###1'')
   \<and> hash_part (sha256_hex ''eyJhIjoxfQ==SALT1'' @ ''###2'')
     = hash_part (sha256_hex ''eyJhIjoxfQ==SALT1'' @ ''###1'')"
  by (simp add: generatePhonePeSignature_def PHONEPE_SALT_KEY_def PHONEPE_SALT_INDEX_def
      str_def example_env_def hash_part_signature)

section \<open>PhonePe OAuth webhook\<close>

text \<open>
  C7 (amended). The OAuth \<^verbatim>\<open>handlePhonePeWebhook\<close> reads no header and no credential and
  never throws. It returns the processed result, with order id, status and amount read
  from \<^verbatim>\<open>data\<close> and \<^verbatim>\<open>success\<close> from the body, exactly when the body and its
  \<^verbatim>\<open>data\<close> property are both truthy; every other body gets the invalid-format result.
\<close>

theorem handlePhonePeWebhook_oauth_result:
  "handlePhonePeWebhook_oauth body =
     Inr (if truthy body \<and> truthy (opt_prop body ''data'') then
            JObj [(''processed'', JBool True),
                  (''orderId'', opt_prop (opt_prop body ''data'') ''merchantOrderId''),
                  (''status'', opt_prop (opt_prop body ''data'') ''state''),
                  (''amount'', opt_prop (opt_prop body ''data'') ''amount''),
                  (''success'', opt_prop body ''success'')]
          else invalid_format)"
  by (cases body) (simp_all add: handlePhonePeWebhook_oauth_def opt_prop_def Let_def)

theorem handlePhonePeWebhook_oauth_witness:
  "handlePhonePeWebhook_oauth
     (JObj [(''data'', JObj [(''merchantOrderId'', JStr ''ORDER1''),
                             (''state'', JStr ''COMPLETED''), (''amount'', JNum 49900)]),
            (''success'', JBool True)])
     = Inr (JObj [(''processed'', JBool True), (''orderId'', JStr ''ORDER1''),
                  (''status'', JStr ''COMPLETED''), (''amount'', JNum 49900),
                  (''success'', JBool True)])
   \<and> handlePhonePeWebhook_oauth JNull = Inr invalid_format"
  using handlePhonePeWebhook_oauth_result
      [of "JObj [(''data'', JObj [(''merchantOrderId'', JStr ''ORDER1''),
                             (''state'', JStr ''COMPLETED''), (''amount'', JNum 49900)]),
            (''success'', JBool True)]"]
    handlePhonePeWebhook_oauth_result [of JNull]
  by (simp add: opt_prop_def)

text \<open>
  C7 as stated fails: a body that is not null and has a \<^verbatim>\<open>data\<close> property whose value
  is falsy is not processed.
\<close>

theorem handlePhonePeWebhook_oauth_counterexample:
  "handlePhonePeWebhook_oauth (JObj [(''data'', JNum 0), (''success'', JBool True)])
     = Inr invalid_format
   \<and> map_of [(''data'', JNum 0), (''success'', JBool True)] ''data'' = Some (JNum 0)"
  by (simp add: handlePhonePeWebhook_oauth_def)

section \<open>Amount validation\<close>

text \<open>
  C10 (amended). \<^verbatim>\<open>validateAmount\<close> accepts exactly the values that are truthy and
  whose conversion by \<^verbatim>\<open>Number\<close> is at least 1; a result is invalid exactly when it
  carries an error message; for a number the test is that it is at least 1, so zero,
  NaN and every number below 1 are rejected.
\<close>

theorem validateAmount_valid_iff:
  "valid (validateAmount StringToNumber amount)
     = (amount_truthy amount \<and> num_ge (Number StringToNumber amount) 1)
   \<and> (error (validateAmount StringToNumber amount) = None)
     = valid (validateAmount StringToNumber amount)
   \<and> valid (validateAmount StringToNumber (ANum n)) = num_ge n 1"
proof -
  have a: "valid (validateAmount StringToNumber a)
     = (amount_truthy a \<and> num_ge (Number StringToNumber a) 1)" for a
    by (cases "Number StringToNumber a") (auto simp: validateAmount_def Let_def)
  have b: "(error (validateAmount StringToNumber amount) = None)
     = valid (validateAmount StringToNumber amount)"
    by (auto simp: validateAmount_def Let_def)
  have c: "valid (validateAmount StringToNumber (ANum n)) = num_ge n 1"
    unfolding a by (cases n) auto
  from a b c show ?thesis by blast
qed

theorem validateAmount_witness:
  "valid (validateAmount (\<lambda>s. NaN) (ANum (Fin 499)))
   \<and> \<not> valid (validateAmount (\<lambda>s. NaN) (ANum (Fin (1 / 2))))
   \<and> error (validateAmount (\<lambda>s. NaN) (ANum (Fin (1 / 2)))) \<noteq> None"
  using validateAmount_valid_iff [of "\<lambda>s. NaN" "ANum (Fin 499)" "Fin (1 / 2)"]
    validateAmount_valid_iff [of "\<lambda>s. NaN" "ANum (Fin (1 / 2))" "Fin (1 / 2)"]
  by simp

text \<open>
  C10 as stated fails: the boolean \<^verbatim>\<open>true\<close> is not a number, converts to 1 and is
  accepted.
\<close>

theorem validateAmount_boolean_counterexample:
  "validateAmount (\<lambda>s. NaN) (ABool True) = \<lparr>valid = True, error = None\<rparr>"
  by (simp add: validateAmount_def)

section \<open>OAuth token cache\<close>

text \<open>
  C5. A call that finds a token in the cache with \<^verbatim>\<open>expiresAt\<close> greater than the
  current time returns that token and sends no request. Every other call, that is one
  that finds no token, or a token whose \<^verbatim>\<open>expiresAt\<close> is less than or equal to the
  current time (or is NaN or \<^verbatim>\<open>null\<close>), sends one request when the credentials are
  configured; when the response carries a token and \<^verbatim>\<open>expires_in\<close>, the call returns the
  fresh token and caches it with \<^verbatim>\<open>expiresAt\<close> equal to the time of caching plus
  \<open>(expires_in - 60) * 1000\<close> milliseconds. Every later call before that time returns the
  same token and sends no request, and a call at or after that time fetches again.
\<close>

theorem getAccessToken_cache:
  "(accessToken c = Some tok \<and> tok \<noteq> [] \<and> expiresAt c = TNum t \<and> now < t \<longrightarrow>
      getAccessToken cfg c now outcome now' = (Inr tok, c, 0))
   \<and> ((accessToken c = None \<or> accessToken c = Some [] \<or> expiresAt c = TNaN
        \<or> (expiresAt c = TNull \<and> 0 \<le> now) \<or> (\<exists>t. expiresAt c = TNum t \<and> t \<le> now))
       \<and> present (PHONEPE_CLIENT_ID cfg) \<and> present (PHONEPE_CLIENT_SECRET cfg)
       \<and> access_token r = Some fresh \<and> fresh \<noteq> [] \<and> expires_in r = Some e \<longrightarrow>
      getAccessToken cfg c now (Inr r) now'
        = (Inr fresh, \<lparr>accessToken = Some fresh, expiresAt = TNum (now' + (e - 60) * 1000)\<rparr>, 1)
      \<and> (\<forall>now2 outcome2 now2'. now2 < now' + (e - 60) * 1000 \<longrightarrow>
           getAccessToken cfg \<lparr>accessToken = Some fresh, expiresAt = TNum (now' + (e - 60) * 1000)\<rparr>
             now2 outcome2 now2'
           = (Inr fresh, \<lparr>accessToken = Some fresh, expiresAt = TNum (now' + (e - 60) * 1000)\<rparr>, 0))
      \<and> (\<forall>now2 r2 now2' fresh2 e2. now' + (e - 60) * 1000 \<le> now2
             \<and> access_token r2 = Some fresh2 \<and> fresh2 \<noteq> [] \<and> expires_in r2 = Some e2 \<longrightarrow>
           getAccessToken cfg \<lparr>accessToken = Some fresh, expiresAt = TNum (now' + (e - 60) * 1000)\<rparr>
             now2 (Inr r2) now2'
           = (Inr fresh2, \<lparr>accessToken = Some fresh2, expiresAt = TNum (now2' + (e2 - 60) * 1000)\<rparr>, 1)))"
proof -
  have hit: "getAccessToken cfg k n outcome n' = (Inr tk, k, 0)"
    if "accessToken k = Some tk" "tk \<noteq> []" "expiresAt k = TNum u" "n < u" for k n n' tk u outcome
    using that
    by (simp add: getAccessToken_def getAccessToken_start_def cache_valid_def present_def str_def)
  have miss: "getAccessToken cfg k n (Inr q) n'
        = (Inr f, \<lparr>accessToken = Some f, expiresAt = TNum (n' + (x - 60) * 1000)\<rparr>, 1)"
    if "accessToken k = None \<or> accessToken k = Some [] \<or> expiresAt k = TNaN
          \<or> (expiresAt k = TNull \<and> 0 \<le> n) \<or> (\<exists>u. expiresAt k = TNum u \<and> u \<le> n)"
      "present (PHONEPE_CLIENT_ID cfg)" "present (PHONEPE_CLIENT_SECRET cfg)"
      "access_token q = Some f" "f \<noteq> []" "expires_in q = Some x" for k n n' q f x
  proof -
    have "\<not> cache_valid k n"
      using that(1) by (auto simp: cache_valid_def present_def)
    then show ?thesis
      using that(2-)
      by (simp add: getAccessToken_def getAccessToken_start_def getAccessToken_finish_def
          present_def str_def)
  qed
  show ?thesis
  proof (intro conjI impI allI)
    assume "accessToken c = Some tok \<and> tok \<noteq> [] \<and> expiresAt c = TNum t \<and> now < t"
    then show "getAccessToken cfg c now outcome now' = (Inr tok, c, 0)"
      using hit by blast
  next
    assume h: "(accessToken c = None \<or> accessToken c = Some [] \<or> expiresAt c = TNaN
        \<or> (expiresAt c = TNull \<and> 0 \<le> now) \<or> (\<exists>t. expiresAt c = TNum t \<and> t \<le> now))
       \<and> present (PHONEPE_CLIENT_ID cfg) \<and> present (PHONEPE_CLIENT_SECRET cfg)
       \<and> access_token r = Some fresh \<and> fresh \<noteq> [] \<and> expires_in r = Some e"
    then show "getAccessToken cfg c now (Inr r) now'
        = (Inr fresh, \<lparr>accessToken = Some fresh, expiresAt = TNum (now' + (e - 60) * 1000)\<rparr>, 1)"
      using miss [of c now r fresh e now'] by blast
    fix now2 :: int and outcome2 :: "string + oauth_response" and now2' :: int
    assume "now2 < now' + (e - 60) * 1000"
    then show "getAccessToken cfg \<lparr>accessToken = Some fresh, expiresAt = TNum (now' + (e - 60) * 1000)\<rparr>
             now2 outcome2 now2'
           = (Inr fresh, \<lparr>accessToken = Some fresh, expiresAt = TNum (now' + (e - 60) * 1000)\<rparr>, 0)"
      using h by (intro hit [where u = "now' + (e - 60) * 1000"]) simp_all
  next
    fix now2 :: int and r2 :: oauth_response and now2' :: int and fresh2 :: string and e2 :: int
    assume h: "(accessToken c = None \<or> accessToken c = Some [] \<or> expiresAt c = TNaN
        \<or> (expiresAt c = TNull \<and> 0 \<le> now) \<or> (\<exists>t. expiresAt c = TNum t \<and> t \<le> now))
       \<and> present (PHONEPE_CLIENT_ID cfg) \<and> present (PHONEPE_CLIENT_SECRET cfg)
       \<and> access_token r = Some fresh \<and> fresh \<noteq> [] \<and> expires_in r = Some e"
      and l: "now' + (e - 60) * 1000 \<le> now2
             \<and> access_token r2 = Some fresh2 \<and> fresh2 \<noteq> [] \<and> expires_in r2 = Some e2"
    show "getAccessToken cfg \<lparr>accessToken = Some fresh, expiresAt = TNum (now' + (e - 60) * 1000)\<rparr>
             now2 (Inr r2) now2'
           = (Inr fresh2, \<lparr>accessToken = Some fresh2, expiresAt = TNum (now2' + (e2 - 60) * 1000)\<rparr>, 1)"
      using h l by (intro miss) simp_all
  qed
qed

theorem getAccessToken_cache_witness:
  "getAccessToken example_env \<lparr>accessToken = Some ''tok'', expiresAt = TNum 5000\<rparr> 1000
     (Inl ''unused'') 1000 = (Inr ''tok'', \<lparr>accessToken = Some ''tok'', expiresAt = TNum 5000\<rparr>, 0)
   \<and> getAccessToken example_env empty_cache 1000 (Inr example_response) 1200
     = (Inr ''tok'', \<lparr>accessToken = Some ''tok'', expiresAt = TNum 3541200\<rparr>, 1)
   \<and> getAccessToken example_env \<lparr>accessToken = Some ''tok'', expiresAt = TNum 3541200\<rparr>
       2000 (Inl ''unused'') 2000
     = (Inr ''tok'', \<lparr>accessToken = Some ''tok'', expiresAt = TNum 3541200\<rparr>, 0)
   \<and> getAccessToken example_env \<lparr>accessToken = Some ''old'', expiresAt = TNum 1000\<rparr>
       1000 (Inr example_response) 1200
     = (Inr ''tok'', \<lparr>accessToken = Some ''tok'', expiresAt = TNum 3541200\<rparr>, 1)
   \<and> getAccessToken example_env \<lparr>accessToken = Some ''tok'', expiresAt = TNum 3541200\<rparr>
       3541200 (Inr example_response) 3541500
     = (Inr ''tok'', \<lparr>accessToken = Some ''tok'', expiresAt = TNum 7081500\<rparr>, 1)"
proof -
  have hit: "getAccessToken example_env \<lparr>accessToken = Some ''tok'', expiresAt = TNum 5000\<rparr> 1000
     (Inl ''unused'') 1000 = (Inr ''tok'', \<lparr>accessToken = Some ''tok'', expiresAt = TNum 5000\<rparr>, 0)"
    using getAccessToken_cache [where c = "\<lparr>accessToken = Some ''tok'', expiresAt = TNum 5000\<rparr>"
      and tok = "''tok''" and t = 5000 and now = 1000 and cfg = example_env
      and outcome = "Inl ''unused''" and now' = 1000]
    by simp
  have miss: "getAccessToken example_env empty_cache 1000 (Inr example_response) 1200
        = (Inr ''tok'', \<lparr>accessToken = Some ''tok'', expiresAt = TNum 3541200\<rparr>, 1)
      \<and> (\<forall>now2 outcome2 now2'. now2 < 3541200 \<longrightarrow>
           getAccessToken example_env \<lparr>accessToken = Some ''tok'', expiresAt = TNum 3541200\<rparr>
             now2 outcome2 now2'
           = (Inr ''tok'', \<lparr>accessToken = Some ''tok'', expiresAt = TNum 3541200\<rparr>, 0))
      \<and> (\<forall>now2 r2 now2' fresh2 e2. 3541200 \<le> now2
             \<and> access_token r2 = Some fresh2 \<and> fresh2 \<noteq> [] \<and> expires_in r2 = Some e2 \<longrightarrow>
           getAccessToken example_env \<lparr>accessToken = Some ''tok'', expiresAt = TNum 3541200\<rparr>
             now2 (Inr r2) now2'
           = (Inr fresh2, \<lparr>accessToken = Some fresh2, expiresAt = TNum (now2' + (e2 - 60) * 1000)\<rparr>, 1))"
    using getAccessToken_cache [where c = empty_cache and now = 1000
      and cfg = example_env and now' = 1200
      and r = example_response and fresh = "''tok''" and e = 3600]
    by (simp add: example_env_def example_response_def empty_cache_def present_def)
  have later: "getAccessToken example_env \<lparr>accessToken = Some ''tok'', expiresAt = TNum 3541200\<rparr>
       2000 (Inl ''unused'') 2000
     = (Inr ''tok'', \<lparr>accessToken = Some ''tok'', expiresAt = TNum 3541200\<rparr>, 0)"
    using miss [THEN conjunct2, THEN conjunct1, rule_format, of 2000] by simp
  have again: "getAccessToken example_env \<lparr>accessToken = Some ''tok'', expiresAt = TNum 3541200\<rparr>
       3541200 (Inr example_response) 3541500
     = (Inr ''tok'', \<lparr>accessToken = Some ''tok'', expiresAt = TNum 7081500\<rparr>, 1)"
    using miss [THEN conjunct2, THEN conjunct2, rule_format, of 3541200 example_response "''tok''" 3600 3541500]
    by (simp add: example_response_def)
  have expired: "getAccessToken example_env \<lparr>accessToken = Some ''old'', expiresAt = TNum 1000\<rparr>
       1000 (Inr example_response) 1200
     = (Inr ''tok'', \<lparr>accessToken = Some ''tok'', expiresAt = TNum 3541200\<rparr>, 1)"
    using getAccessToken_cache [where c = "\<lparr>accessToken = Some ''old'', expiresAt = TNum 1000\<rparr>"
      and now = 1000 and cfg = example_env and now' = 1200 and r = example_response
      and fresh = "''tok''" and e = 3600]
    by (simp add: example_env_def example_response_def present_def)
  from hit miss later expired again show ?thesis by simp
qed

lemma fetches_step: "fetches (step cfg s ev) \<le> fetches s + (if is_call ev then 1 else 0)"
  by (cases ev) (auto split: start.splits prod.splits)

lemma fetches_run: "fetches (run cfg s evs) \<le> fetches s + length (filter is_call evs)"
  unfolding run_def
proof (induction evs arbitrary: s)
  case Nil
  then show ?case by simp
next
  case (Cons ev evs)
  have "fetches (foldl (step cfg) (step cfg s ev) evs)
          \<le> fetches (step cfg s ev) + length (filter is_call evs)"
    by (rule Cons.IH)
  with fetches_step [of cfg s ev] show ?case by (simp split: if_splits)
qed

text \<open>
  C6 (amended). \<^verbatim>\<open>getAccessToken\<close> has no single-flight: a caller that enters while the
  cache holds no valid token sends its own request, whether or not other requests are
  in flight. A caller that enters while the cache is valid sends none, and the number of
  requests never exceeds the number of calls.
\<close>

theorem getAccessToken_no_single_flight:
  "fetches (run cfg s evs) \<le> fetches s + length (filter is_call evs)
   \<and> (cache_valid (cache s) now \<longrightarrow>
        step cfg s (Call c now) = s\<lparr>returned := returned s @ [(c, Inr (str (accessToken (cache s))))]\<rparr>)
   \<and> (\<not> cache_valid (cache s) now \<and> present (PHONEPE_CLIENT_ID cfg)
        \<and> present (PHONEPE_CLIENT_SECRET cfg) \<longrightarrow>
        step cfg s (Call c now) = s\<lparr>fetches := fetches s + 1, waiting := waiting s @ [c]\<rparr>)"
  using fetches_run [of cfg s evs] by (simp add: getAccessToken_start_def)

theorem getAccessToken_no_single_flight_witness:
  "fetches (run example_env initial [Call 1 1000, Response 1 (Inr example_response) 1200, Call 2 2000]) \<le> 0 + 2
   \<and> step example_env (initial\<lparr>cache := \<lparr>accessToken = Some ''tok'', expiresAt = TNum 5000\<rparr>\<rparr>) (Call 2 2000)
     = initial\<lparr>cache := \<lparr>accessToken = Some ''tok'', expiresAt = TNum 5000\<rparr>, returned := [(2, Inr ''tok'')]\<rparr>
   \<and> step example_env (initial\<lparr>fetches := 1, waiting := [1]\<rparr>) (Call 2 1001)
     = initial\<lparr>fetches := 2, waiting := [1, 2]\<rparr>"
  using getAccessToken_no_single_flight [where cfg = example_env
      and s = "initial\<lparr>cache := \<lparr>accessToken = Some ''tok'', expiresAt = TNum 5000\<rparr>\<rparr>"
      and evs = "[]" and now = 2000 and c = 2]
    getAccessToken_no_single_flight [where cfg = example_env
      and s = "initial\<lparr>fetches := 1, waiting := [1]\<rparr>" and evs = "[]" and now = 1001 and c = 2]
    getAccessToken_no_single_flight [where cfg = example_env and s = initial
      and evs = "[Call 1 1000, Response 1 (Inr example_response) 1200, Call 2 2000]"
      and now = 0 and c = 0]
  by (simp add: example_env_def initial_def empty_cache_def cache_valid_def present_def str_def)

text \<open>
  C6 as stated fails: two callers that enter on an empty cache before the first response
  arrives send two requests.
\<close>

theorem getAccessToken_concurrent_counterexample:
  "fetches (run example_env initial
     [Call 1 1000, Call 2 1001, Response 1 (Inr example_response) 1200,
      Response 2 (Inr example_response) 1201]) = 2"
  by (simp add: run_def initial_def empty_cache_def example_env_def example_response_def
      getAccessToken_start_def getAccessToken_finish_def cache_valid_def present_def)

section \<open>Razorpay webhook\<close>

lemma get_prop_defined:
  "v \<noteq> JUndefined \<Longrightarrow> v \<noteq> JNull \<Longrightarrow> get_prop v k = Inr (opt_prop v k)"
  by (cases v) (simp_all add: opt_prop_def)

lemma get_prop_Inl: "get_prop v k = Inl e \<longleftrightarrow> (v = JUndefined \<or> v = JNull) \<and> e = TypeError"
  by (cases v) auto

lemma stringify_defined: "v \<noteq> JUndefined \<Longrightarrow> \<exists>text. JSON_stringify v = Some text"
  by (cases v) simp_all

lemma stringify_captured:
  \<open>JSON_stringify captured_body
     = Some ''{"event":"payment.captured","payload":{"payment":{"entity":{"id":"pay_1"}}}}''\<close>
  by (simp add: captured_body_def quote_def quote_char_def)

lemma hmac_not_0000: "hmac_sha256_hex k s \<noteq> ''0000''"
  using length_hmac_sha256_hex [of k s] by auto

lemma hmac_not_0000': "''0000'' \<noteq> hmac_sha256_hex k s"
  using hmac_not_0000 [of k s] by metis

lemma spec_status_cases:
  assumes "spec_status ev = Some st"
  shows "(ev = ''payment.authorized'' \<and> st = ''success'') \<or> (ev = ''payment.failed'' \<and> st = ''failed'')
       \<or> (ev = ''payment.captured'' \<and> st = ''captured'') \<or> (ev = ''refund.created'' \<and> st = ''refunded'')"
  using assms unfolding spec_status_def by (simp split: if_splits)

lemma get_path3:
  "get_path v [a, b, c] = Inr ent \<Longrightarrow> ent \<noteq> JUndefined \<Longrightarrow> ent \<noteq> JNull \<Longrightarrow>
     \<exists>p. get_prop v a = Inr p \<and> get_path p [b, c, k] = Inr (opt_prop ent k)"
proof -
  assume g: "get_path v [a, b, c] = Inr ent" and n: "ent \<noteq> JUndefined" "ent \<noteq> JNull"
  from g obtain p q where pq: "get_prop v a = Inr p" "get_prop p b = Inr q" "get_prop q c = Inr ent"
    by (auto split: sum.splits)
  have "get_path p [b, c, k] = Inr (opt_prop ent k)"
    using pq n by (simp add: get_prop_defined)
  with pq show ?thesis by blast
qed

lemma razorpay_event_known:
  assumes s: "spec_status ev = Some st"
    and e: "get_path body (entity_path ev) = Inr ent" and n: "ent \<noteq> JUndefined" "ent \<noteq> JNull"
    and p: "get_prop body ''payload'' = Inr payload"
  shows "\<exists>r. razorpay_event (JStr ev) payload = Inr r \<and> opt_prop r ''valid'' = JBool True
           \<and> opt_prop r ''event'' = JStr ev \<and> opt_prop r ''status'' = JStr st"
proof -
  have pay: "get_path payload [''payment'', ''entity'', k] = Inr (opt_prop ent k)"
    if "ev \<noteq> ''refund.created''" for k
    using get_path3 [of body "''payload''" "''payment''" "''entity''" ent k] e n p that
    by (simp add: entity_path_def)
  have ref: "get_path payload [''refund'', ''entity'', k] = Inr (opt_prop ent k)"
    if "ev = ''refund.created''" for k
    using get_path3 [of body "''payload''" "''refund''" "''entity''" ent k] e n p that
    by (simp add: entity_path_def)
  from spec_status_cases [OF s] show ?thesis
  proof (elim disjE conjE)
    assume "ev = ''payment.authorized''" "st = ''success''"
    then show ?thesis
      using pay by (simp add: razorpay_event_def opt_prop_def del: get_path.simps)
  next
    assume "ev = ''payment.failed''" "st = ''failed''"
    then show ?thesis
      using pay by (simp add: razorpay_event_def opt_prop_def del: get_path.simps)
  next
    assume "ev = ''payment.captured''" "st = ''captured''"
    then show ?thesis
      using pay by (simp add: razorpay_event_def opt_prop_def del: get_path.simps)
  next
    assume "ev = ''refund.created''" "st = ''refunded''"
    then show ?thesis
      using ref by (simp add: razorpay_event_def opt_prop_def del: get_path.simps)
  qed
qed

lemma razorpay_event_unknown:
  assumes "\<forall>ev. event = JStr ev \<longrightarrow> spec_status ev = None"
  shows "razorpay_event event payload
           = Inr (JObj [(''valid'', JBool True), (''event'', event), (''processed'', JBool False)])"
proof -
  have ne: "event \<noteq> JStr s" if "spec_status s \<noteq> None" for s
    using assms that by auto
  have 1: "event \<noteq> JStr ''payment.authorized''" by (rule ne) (simp add: spec_status_def)
  have 2: "event \<noteq> JStr ''payment.failed''" by (rule ne) (simp add: spec_status_def)
  have 3: "event \<noteq> JStr ''payment.captured''" by (rule ne) (simp add: spec_status_def)
  have 4: "event \<noteq> JStr ''refund.created''" by (rule ne) (simp add: spec_status_def)
  show ?thesis unfolding razorpay_event_def by (simp only: 1 2 3 4 if_False)
qed

text \<open>
  C8 (amended). With the secret configured and a body that is neither \<^verbatim>\<open>null\<close> nor
  \<^verbatim>\<open>undefined\<close>, \<^verbatim>\<open>handleRazorpayWebhook\<close> returns the invalid-signature result
  without raising whenever the signature differs from the hex HMAC-SHA256 of the JSON
  serialization of the body. On a match, a known event whose entity
  (\<^verbatim>\<open>payload.payment.entity\<close>, or \<^verbatim>\<open>payload.refund.entity\<close> for a refund) is present
  yields a result with \<^verbatim>\<open>valid: true\<close> and the status of the event table, and any other
  event value yields \<^verbatim>\<open>{valid: true, event, processed: false}\<close>.
\<close>

theorem handleRazorpayWebhook_result:
  assumes "RAZORPAY_KEY_SECRET cfg = Some secret"
    and "JSON_stringify body = Some ser" and "body \<noteq> JNull"
  shows "(sg \<noteq> Some (hmac_sha256_hex secret ser) \<longrightarrow>
          handleRazorpayWebhook cfg body sg = Inr invalid_signature)
     \<and> (sg = Some (hmac_sha256_hex secret ser) \<longrightarrow>
          (\<forall>ev st ent. opt_prop body ''event'' = JStr ev \<and> spec_status ev = Some st
              \<and> get_path body (entity_path ev) = Inr ent \<and> ent \<noteq> JUndefined \<and> ent \<noteq> JNull \<longrightarrow>
              (\<exists>r. handleRazorpayWebhook cfg body sg = Inr r \<and> opt_prop r ''valid'' = JBool True
                 \<and> opt_prop r ''event'' = JStr ev \<and> opt_prop r ''status'' = JStr st))
        \<and> ((\<forall>ev. opt_prop body ''event'' = JStr ev \<longrightarrow> spec_status ev = None) \<longrightarrow>
              handleRazorpayWebhook cfg body sg
                = Inr (JObj [(''valid'', JBool True), (''event'', opt_prop body ''event''),
                             (''processed'', JBool False)])))"
proof -
  have u: "body \<noteq> JUndefined" using assms(2) by auto
  have p: "get_prop body k = Inr (opt_prop body k)" for k
    using u assms(3) by (rule get_prop_defined)
  have mismatch: "handleRazorpayWebhook cfg body sg = Inr invalid_signature"
    if "sg \<noteq> Some (hmac_sha256_hex secret ser)"
    using that assms(1,2) by (auto simp: handleRazorpayWebhook_def p Let_def)
  have match: "handleRazorpayWebhook cfg body sg
      = razorpay_event (opt_prop body ''event'') (opt_prop body ''payload'')"
    if "sg = Some (hmac_sha256_hex secret ser)"
    using that assms(1,2) by (simp add: handleRazorpayWebhook_def p Let_def)
  have known: "\<exists>r. handleRazorpayWebhook cfg body sg = Inr r \<and> opt_prop r ''valid'' = JBool True
                 \<and> opt_prop r ''event'' = JStr ev \<and> opt_prop r ''status'' = JStr st"
    if "sg = Some (hmac_sha256_hex secret ser)" "opt_prop body ''event'' = JStr ev"
      "spec_status ev = Some st" "get_path body (entity_path ev) = Inr ent"
      "ent \<noteq> JUndefined" "ent \<noteq> JNull" for ev st ent
    using razorpay_event_known [OF that(3,4,5,6) p] match [OF that(1)] that(2) by simp
  have unknown: "handleRazorpayWebhook cfg body sg
                = Inr (JObj [(''valid'', JBool True), (''event'', opt_prop body ''event''),
                             (''processed'', JBool False)])"
    if "sg = Some (hmac_sha256_hex secret ser)"
      "\<forall>ev. opt_prop body ''event'' = JStr ev \<longrightarrow> spec_status ev = None"
    using razorpay_event_unknown [OF that(2)] match [OF that(1)] by simp
  show ?thesis using mismatch known unknown by blast
qed

lemma stringify_order_paid:
  \<open>JSON_stringify (JObj [(''event'', JStr ''order.paid'')]) = Some ''{"event":"order.paid"}''\<close>
  by (simp add: quote_def quote_char_def)

theorem handleRazorpayWebhook_witness:
  \<open>handleRazorpayWebhook example_env captured_body (Some ''0000'') = Inr invalid_signature
   \<and> (\<exists>r. handleRazorpayWebhook example_env captured_body
            (Some (hmac_sha256_hex ''s3cr3t''
               ''{"event":"payment.captured","payload":{"payment":{"entity":{"id":"pay_1"}}}}''))
          = Inr r \<and> opt_prop r ''valid'' = JBool True
          \<and> opt_prop r ''event'' = JStr ''payment.captured''
          \<and> opt_prop r ''status'' = JStr ''captured'')
   \<and> handleRazorpayWebhook example_env (JObj [(''event'', JStr ''order.paid'')])
        (Some (hmac_sha256_hex ''s3cr3t'' ''{"event":"order.paid"}''))
      = Inr (JObj [(''valid'', JBool True), (''event'', JStr ''order.paid''),
                   (''processed'', JBool False)])\<close>
proof -
  have a: "RAZORPAY_KEY_SECRET example_env = Some ''s3cr3t''" by (simp add: example_env_def)
  have b: "captured_body \<noteq> JNull" by (simp add: captured_body_def)
  have d: "opt_prop captured_body ''event'' = JStr ''payment.captured''
      \<and> spec_status ''payment.captured'' = Some ''captured''
      \<and> get_path captured_body (entity_path ''payment.captured'') = Inr (JObj [(''id'', JStr ''pay_1'')])
      \<and> JObj [(''id'', JStr ''pay_1'')] \<noteq> JUndefined \<and> JObj [(''id'', JStr ''pay_1'')] \<noteq> JNull"
    by (simp add: captured_body_def entity_path_def spec_status_def opt_prop_def)
  have e: "\<forall>ev. opt_prop (JObj [(''event'', JStr ''order.paid'')]) ''event'' = JStr ev
             \<longrightarrow> spec_status ev = None"
    by (simp add: opt_prop_def spec_status_def)
  have 1: "handleRazorpayWebhook example_env captured_body (Some ''0000'') = Inr invalid_signature"
    using handleRazorpayWebhook_result [OF a stringify_captured b, of "Some ''0000''"]
    by (simp add: hmac_not_0000')
  have 2: \<open>\<exists>r. handleRazorpayWebhook example_env captured_body
            (Some (hmac_sha256_hex ''s3cr3t''
               ''{"event":"payment.captured","payload":{"payment":{"entity":{"id":"pay_1"}}}}''))
          = Inr r \<and> opt_prop r ''valid'' = JBool True
          \<and> opt_prop r ''event'' = JStr ''payment.captured''
          \<and> opt_prop r ''status'' = JStr ''captured''\<close>
    using handleRazorpayWebhook_result [OF a stringify_captured b] d by blast
  have 3: \<open>handleRazorpayWebhook example_env (JObj [(''event'', JStr ''order.paid'')])
        (Some (hmac_sha256_hex ''s3cr3t'' ''{"event":"order.paid"}''))
      = Inr (JObj [(''valid'', JBool True), (''event'', JStr ''order.paid''),
                   (''processed'', JBool False)])\<close>
    using handleRazorpayWebhook_result [OF a stringify_order_paid, of
        \<open>Some (hmac_sha256_hex ''s3cr3t'' ''{"event":"order.paid"}'')\<close>] e
    by (simp add: opt_prop_def)
  from 1 2 3 show ?thesis by blast
qed

text \<open>
  C8 as stated fails: the body \<^verbatim>\<open>null\<close> raises a TypeError although the signature
  differs from the HMAC of its serialization, and a known event without a payload raises
  a TypeError although the signature matches.
\<close>

theorem handleRazorpayWebhook_counterexample:
  \<open>handleRazorpayWebhook example_env JNull (Some ''0000'') = Inl TypeError
   \<and> JSON_stringify JNull = Some ''null''
   \<and> hmac_sha256_hex ''s3cr3t'' ''null'' \<noteq> ''0000''
   \<and> handleRazorpayWebhook example_env (JObj [(''event'', JStr ''payment.authorized'')])
        (Some (hmac_sha256_hex ''s3cr3t'' ''{"event":"payment.authorized"}'')) = Inl TypeError
   \<and> JSON_stringify (JObj [(''event'', JStr ''payment.authorized'')])
        = Some ''{"event":"payment.authorized"}''\<close>
  by (simp add: handleRazorpayWebhook_def hmac_not_0000 example_env_def quote_def quote_char_def
      razorpay_event_def)

section \<open>Exceptions of the webhook handlers\<close>

lemma expectedAuth_example: "expectedAuth example_env = ''dXNlcjpwYXNz''"
  by (simp add: expectedAuth_def example_env_def str_def base64_def b64chars_def)

lemma base64_completed: \<open>base64 ''{"state":"COMPLETED"}'' = ''eyJzdGF0ZSI6IkNPTVBMRVRFRCJ9''\<close>
  by (simp add: base64_def b64chars_def)

lemma stringify_completed:
  \<open>JSON_stringify completed_body = Some ''{"data":{"response":"eyJzdGF0ZSI6IkNPTVBMRVRFRCJ9"}}''\<close>
  by (simp add: completed_body_def quote_def quote_char_def)

lemma providedAuth_basic: "providedAuth (Some ''Basic dXNlcjpwYXNz'') = ''dXNlcjpwYXNz''"
  by (simp add: providedAuth_def)

lemma get_path_Inl: "get_path v ks = Inl e \<Longrightarrow> e = TypeError"
  by (induction ks arbitrary: v) (auto simp: get_prop_Inl split: sum.splits)

lemma razorpay_event_Inl: "razorpay_event event payload = Inl e \<Longrightarrow> e = TypeError"
  unfolding razorpay_event_def
  by (auto simp del: get_path.simps split: if_splits sum.splits dest: get_path_Inl)

lemma phonepe_result_Inl: "phonepe_result rd = Inl e \<Longrightarrow> e = TypeError"
  by (auto simp: phonepe_result_def get_prop_Inl split: sum.splits)

lemma generatePhonePeSignature_Inl: "generatePhonePeSignature cfg b = Inl e \<Longrightarrow> e = TypeError"
  by (auto simp: generatePhonePeSignature_def Let_def split: if_splits)

lemma stringify_None: "JSON_stringify v = None \<Longrightarrow> v = JUndefined"
  by (cases v) simp_all

lemma handleRazorpayWebhook_Inl:
  assumes "handleRazorpayWebhook cfg body sg = Inl e"
  shows "e = TypeError \<and> (body = JNull \<or> body = JUndefined \<or> RAZORPAY_KEY_SECRET cfg = None
           \<or> (\<exists>secret ser. RAZORPAY_KEY_SECRET cfg = Some secret \<and> JSON_stringify body = Some ser
                 \<and> sg = Some (hmac_sha256_hex secret ser)))"
  using assms unfolding handleRazorpayWebhook_def Let_def
  by (auto simp: get_prop_Inl invalid_signature_def split: sum.splits option.splits if_splits
      dest: razorpay_event_Inl stringify_None)

lemma handlePhonePeWebhook_salt_Inl:
  assumes "handlePhonePeWebhook_salt decode cfg body x a = Inl e"
  shows "e = TypeError \<and> providedAuth a = expectedAuth cfg"
  using assms unfolding handlePhonePeWebhook_salt_def verifyPhonePeSignature_def Let_def
  by (auto simp: get_prop_Inl split: sum.splits if_splits
      dest: phonepe_result_Inl generatePhonePeSignature_Inl)

text \<open>
  C2 (amended). The OAuth \<^verbatim>\<open>handlePhonePeWebhook\<close> returns a result for every input.
  \<^verbatim>\<open>handleRazorpayWebhook\<close> and the salt-based \<^verbatim>\<open>handlePhonePeWebhook\<close> rethrow what
  their \<^verbatim>\<open>try\<close> block raises, always a TypeError. The Razorpay handler raises on a
  \<^verbatim>\<open>null\<close> or \<^verbatim>\<open>undefined\<close> body; on any other body it raises only when the secret
  is not configured or after the signature has matched. The salt-based handler returns
  the invalid-authentication result whenever the Basic-Auth check fails and raises only
  after that check has passed.
\<close>

theorem webhook_handlers_exceptions:
  "(\<exists>r. handlePhonePeWebhook_oauth body = Inr r)
   \<and> (body = JNull \<or> body = JUndefined \<longrightarrow> handleRazorpayWebhook cfg body sg = Inl TypeError)
   \<and> (handleRazorpayWebhook cfg body sg = Inl e \<longrightarrow>
        e = TypeError \<and> (body = JNull \<or> body = JUndefined \<or> RAZORPAY_KEY_SECRET cfg = None
           \<or> (\<exists>secret ser. RAZORPAY_KEY_SECRET cfg = Some secret \<and> JSON_stringify body = Some ser
                 \<and> sg = Some (hmac_sha256_hex secret ser))))
   \<and> (providedAuth a \<noteq> expectedAuth cfg \<longrightarrow>
        handlePhonePeWebhook_salt decode cfg body x a = Inr invalid_authentication)
   \<and> (handlePhonePeWebhook_salt decode cfg body x a = Inl e' \<longrightarrow>
        e' = TypeError \<and> providedAuth a = expectedAuth cfg)"
proof -
  have 1: "\<exists>r. handlePhonePeWebhook_oauth body = Inr r"
    by (cases body) (simp_all add: handlePhonePeWebhook_oauth_def Let_def)
  have 2: "handleRazorpayWebhook cfg body sg = Inl TypeError" if "body = JNull \<or> body = JUndefined"
    using that by (auto simp: handleRazorpayWebhook_def)
  have 4: "handlePhonePeWebhook_salt decode cfg body x a = Inr invalid_authentication"
    if "providedAuth a \<noteq> expectedAuth cfg"
    using that by (simp add: handlePhonePeWebhook_salt_def)
  show ?thesis
    using 1 2 4 handleRazorpayWebhook_Inl [of cfg body sg e]
      handlePhonePeWebhook_salt_Inl [of decode cfg body x a e'] by blast
qed

theorem webhook_handlers_witness:
  "(\<exists>r. handlePhonePeWebhook_oauth JNull = Inr r)
   \<and> handleRazorpayWebhook example_env JUndefined (Some ''0000'') = Inl TypeError
   \<and> handlePhonePeWebhook_salt example_decode example_env JNull None None
       = Inr invalid_authentication"
  using webhook_handlers_exceptions [where body = JNull and cfg = example_env and sg = None
      and a = None and decode = example_decode and x = None and e = TypeError and e' = TypeError]
    webhook_handlers_exceptions [where body = JUndefined and cfg = example_env
      and sg = "Some ''0000''" and a = None and decode = example_decode and x = None
      and e = TypeError and e' = TypeError]
  by (simp add: expectedAuth_example providedAuth_def)

lemma verify_example:
  "verifyPhonePeSignature example_env (Some s) (Some (sha256_hex (s @ ''SALT1'') @ ''###1'')) = Inr True"
  by (simp add: verifyPhonePeSignature_def generatePhonePeSignature_def PHONEPE_SALT_KEY_def
      PHONEPE_SALT_INDEX_def str_def example_env_def)

text \<open>
  C2 as stated fails: the Razorpay handler raises on a \<^verbatim>\<open>null\<close> body with no
  signature header, and the salt-based PhonePe handler raises on the empty object sent
  with valid credentials and a valid signature.
\<close>

theorem webhook_handlers_counterexample:
  \<open>handleRazorpayWebhook example_env JNull None = Inl TypeError
   \<and> handlePhonePeWebhook_salt example_decode example_env (JObj [])
        (Some (sha256_hex ''{}SALT1'' @ ''###1'')) (Some ''Basic dXNlcjpwYXNz'') = Inl TypeError\<close>
proof -
  have 1: "handleRazorpayWebhook example_env JNull None = Inl TypeError"
    by (simp add: handleRazorpayWebhook_def)
  have 2: "handlePhonePeWebhook_salt example_decode example_env (JObj [])
        (Some (sha256_hex ''{}SALT1'' @ ''###1'')) (Some ''Basic dXNlcjpwYXNz'') = Inl TypeError"
    using verify_example [of "''{}''"]
    by (simp add: handlePhonePeWebhook_salt_def expectedAuth_example providedAuth_basic)
  from 1 2 show ?thesis by blast
qed

section \<open>PhonePe salt-based webhook\<close>

text \<open>
  C4 (amended). With the salt key configured, the salt-based \<^verbatim>\<open>handlePhonePeWebhook\<close>
  checks in two stages. It returns the invalid-authentication result if the Basic-Auth
  header with its first \<^verbatim>\<open>Basic \<close> removed (the empty string for a missing header)
  differs from \<^verbatim>\<open>base64(user:pass)\<close>; otherwise it returns the invalid-signature result
  if the \<^verbatim>\<open>X-VERIFY\<close> header differs from the signature recomputed over the JSON
  serialization of the body. When both checks pass and \<^verbatim>\<open>data.response\<close> can be read,
  the response data is its decoded JSON, or the raw value when decoding fails, and if
  that is neither \<^verbatim>\<open>null\<close> nor \<^verbatim>\<open>undefined\<close> the result has \<^verbatim>\<open>valid: true\<close> and
  \<^verbatim>\<open>success\<close> true exactly when the state is \<^verbatim>\<open>COMPLETED\<close>. A result with
  \<^verbatim>\<open>valid: true\<close> is returned only when both checks passed.
\<close>

theorem handlePhonePeWebhook_salt_stages:
  assumes "PHONEPE_SALT_KEY_env cfg = Some saltKey"
  shows "(providedAuth a \<noteq> expectedAuth cfg \<longrightarrow>
            handlePhonePeWebhook_salt decode cfg body x a = Inr invalid_authentication)
     \<and> (providedAuth a = expectedAuth cfg
          \<and> x \<noteq> Some (sha256_hex (str (JSON_stringify body) @ saltKey) @ ''###'' @ PHONEPE_SALT_INDEX cfg) \<longrightarrow>
            handlePhonePeWebhook_salt decode cfg body x a = Inr invalid_signature)
     \<and> (providedAuth a = expectedAuth cfg
          \<and> x = Some (sha256_hex (str (JSON_stringify body) @ saltKey) @ ''###'' @ PHONEPE_SALT_INDEX cfg)
          \<and> get_path body [''data'', ''response''] = Inr response
          \<and> rd = (case decode response of None \<Rightarrow> response | Some v \<Rightarrow> v)
          \<and> rd \<noteq> JUndefined \<and> rd \<noteq> JNull \<longrightarrow>
            handlePhonePeWebhook_salt decode cfg body x a
              = Inr (JObj [(''valid'', JBool True),
                           (''transactionId'', opt_prop rd ''merchantTransactionId''),
                           (''status'', opt_prop rd ''state''),
                           (''responseCode'', opt_prop rd ''responseCode''),
                           (''amount'', opt_prop rd ''amount''),
                           (''timestamp'', opt_prop rd ''transactionDate''),
                           (''success'', JBool (opt_prop rd ''state'' = JStr ''COMPLETED''))]))
     \<and> (\<forall>r. handlePhonePeWebhook_salt decode cfg body x a = Inr r \<and> opt_prop r ''valid'' = JBool True \<longrightarrow>
            providedAuth a = expectedAuth cfg
          \<and> x = Some (sha256_hex (str (JSON_stringify body) @ saltKey) @ ''###'' @ PHONEPE_SALT_INDEX cfg))"
proof -
  let ?sig = "sha256_hex (str (JSON_stringify body) @ saltKey) @ ''###'' @ PHONEPE_SALT_INDEX cfg"
  have v: "verifyPhonePeSignature cfg (JSON_stringify body) x = Inr (Some ?sig = x)"
    using assms
    by (simp add: verifyPhonePeSignature_def generatePhonePeSignature_def PHONEPE_SALT_KEY_def
        Let_def str_def)
  have 1: "handlePhonePeWebhook_salt decode cfg body x a = Inr invalid_authentication"
    if "providedAuth a \<noteq> expectedAuth cfg"
    using that by (simp add: handlePhonePeWebhook_salt_def)
  have 2: "handlePhonePeWebhook_salt decode cfg body x a = Inr invalid_signature"
    if "providedAuth a = expectedAuth cfg" "x \<noteq> Some ?sig"
    using that v by (auto simp: handlePhonePeWebhook_salt_def Let_def)
  have 3: "handlePhonePeWebhook_salt decode cfg body x a
              = Inr (JObj [(''valid'', JBool True),
                           (''transactionId'', opt_prop rd ''merchantTransactionId''),
                           (''status'', opt_prop rd ''state''),
                           (''responseCode'', opt_prop rd ''responseCode''),
                           (''amount'', opt_prop rd ''amount''),
                           (''timestamp'', opt_prop rd ''transactionDate''),
                           (''success'', JBool (opt_prop rd ''state'' = JStr ''COMPLETED''))])"
    if "providedAuth a = expectedAuth cfg" "x = Some ?sig"
      "get_path body [''data'', ''response''] = Inr response"
      "rd = (case decode response of None \<Rightarrow> response | Some v \<Rightarrow> v)"
      "rd \<noteq> JUndefined" "rd \<noteq> JNull"
  proof -
    from that(3) obtain d where d: "get_prop body ''data'' = Inr d" "get_prop d ''response'' = Inr response"
      by (auto split: sum.splits)
    have "phonepe_result rd = Inr (JObj [(''valid'', JBool True),
                           (''transactionId'', opt_prop rd ''merchantTransactionId''),
                           (''status'', opt_prop rd ''state''),
                           (''responseCode'', opt_prop rd ''responseCode''),
                           (''amount'', opt_prop rd ''amount''),
                           (''timestamp'', opt_prop rd ''transactionDate''),
                           (''success'', JBool (opt_prop rd ''state'' = JStr ''COMPLETED''))])"
      using that(5,6) by (simp add: phonepe_result_def get_prop_defined)
    then show ?thesis
      using that(1,2,4) v d by (simp add: handlePhonePeWebhook_salt_def Let_def)
  qed
  have 4: "providedAuth a = expectedAuth cfg \<and> x = Some ?sig"
    if "handlePhonePeWebhook_salt decode cfg body x a = Inr r" "opt_prop r ''valid'' = JBool True" for r
  proof (rule ccontr)
    assume "\<not> (providedAuth a = expectedAuth cfg \<and> x = Some ?sig)"
    then have "r = invalid_authentication \<or> r = invalid_signature"
      using 1 2 that(1) by auto
    then show False
      using that(2) by (auto simp: invalid_authentication_def invalid_signature_def opt_prop_def)
  qed
  show ?thesis using 1 2 3 4 by blast
qed

theorem handlePhonePeWebhook_salt_witness:
  \<open>handlePhonePeWebhook_salt example_decode example_env completed_body
      (Some (sha256_hex ''{"data":{"response":"eyJzdGF0ZSI6IkNPTVBMRVRFRCJ9"}}SALT1'' @ ''###1''))
      (Some ''Basic wrong'') = Inr invalid_authentication
   \<and> handlePhonePeWebhook_salt example_decode example_env completed_body
      (Some ''0000###1'') (Some ''Basic dXNlcjpwYXNz'') = Inr invalid_signature
   \<and> handlePhonePeWebhook_salt example_decode example_env completed_body
      (Some (sha256_hex ''{"data":{"response":"eyJzdGF0ZSI6IkNPTVBMRVRFRCJ9"}}SALT1'' @ ''###1''))
      (Some ''Basic dXNlcjpwYXNz'')
     = Inr (JObj [(''valid'', JBool True), (''transactionId'', JUndefined),
                  (''status'', JStr ''COMPLETED''), (''responseCode'', JUndefined),
                  (''amount'', JUndefined), (''timestamp'', JUndefined),
                  (''success'', JBool True)])\<close>
proof -
  have k: "PHONEPE_SALT_KEY_env example_env = Some ''SALT1''" by (simp add: example_env_def)
  have i: "PHONEPE_SALT_INDEX example_env = ''1''"
    by (simp add: PHONEPE_SALT_INDEX_def example_env_def)
  have w: "providedAuth (Some ''Basic wrong'') \<noteq> expectedAuth example_env"
    by (simp add: providedAuth_def expectedAuth_example)
  have z: "''0000###1'' \<noteq> sha256_hex s @ ''###1''" for s
  proof
    assume "''0000###1'' = sha256_hex s @ ''###1''"
    then have "length ''0000###1'' = length (sha256_hex s @ ''###1'')" by (rule arg_cong)
    then show False by (simp add: length_sha256_hex)
  qed
  have p: "get_path completed_body [''data'', ''response''] = Inr (JStr ''eyJzdGF0ZSI6IkNPTVBMRVRFRCJ9'')"
    by (simp add: completed_body_def)
  have d: "(case example_decode (JStr ''eyJzdGF0ZSI6IkNPTVBMRVRFRCJ9'') of
              None \<Rightarrow> JStr ''eyJzdGF0ZSI6IkNPTVBMRVRFRCJ9'' | Some v \<Rightarrow> v)
           = JObj [(''state'', JStr ''COMPLETED'')]"
    by (simp add: example_decode_def)
  have 1: "handlePhonePeWebhook_salt example_decode example_env completed_body x
      (Some ''Basic wrong'') = Inr invalid_authentication" for x
    using handlePhonePeWebhook_salt_stages [OF k, of "Some ''Basic wrong''" example_decode
        completed_body x] w by blast
  have 2: "handlePhonePeWebhook_salt example_decode example_env completed_body
      (Some ''0000###1'') (Some ''Basic dXNlcjpwYXNz'') = Inr invalid_signature"
    using handlePhonePeWebhook_salt_stages [OF k, of "Some ''Basic dXNlcjpwYXNz''" example_decode
        completed_body "Some ''0000###1''"]
    by (simp add: i providedAuth_basic expectedAuth_example z)
  have 3: \<open>handlePhonePeWebhook_salt example_decode example_env completed_body
      (Some (sha256_hex ''{"data":{"response":"eyJzdGF0ZSI6IkNPTVBMRVRFRCJ9"}}SALT1'' @ ''###1''))
      (Some ''Basic dXNlcjpwYXNz'')
     = Inr (JObj [(''valid'', JBool True), (''transactionId'', JUndefined),
                  (''status'', JStr ''COMPLETED''), (''responseCode'', JUndefined),
                  (''amount'', JUndefined), (''timestamp'', JUndefined),
                  (''success'', JBool True)])\<close>
    using handlePhonePeWebhook_salt_stages [OF k, of "Some ''Basic dXNlcjpwYXNz''" example_decode
        completed_body
        \<open>Some (sha256_hex ''{"data":{"response":"eyJzdGF0ZSI6IkNPTVBMRVRFRCJ9"}}SALT1'' @ ''###1'')\<close>
        "JStr ''eyJzdGF0ZSI6IkNPTVBMRVRFRCJ9''" "JObj [(''state'', JStr ''COMPLETED'')]"] p d
    by (simp add: i providedAuth_basic expectedAuth_example stringify_completed str_def opt_prop_def)
  from 1 2 3 show ?thesis by blast
qed

text \<open>
  C4 as stated fails: the header \<^verbatim>\<open>dXNlBasic cjpwYXNz\<close> is neither
  \<^verbatim>\<open>base64("user:pass")\<close>, which is \<^verbatim>\<open>dXNlcjpwYXNz\<close>, nor that text behind the scheme
  \<^verbatim>\<open>Basic \<close>, and the webhook is accepted: the \<^verbatim>\<open>Basic \<close> in its middle is removed
  before the comparison.
\<close>

theorem handlePhonePeWebhook_salt_counterexample:
  \<open>''dXNlBasic cjpwYXNz'' \<noteq> base64 ''user:pass''
   \<and> ''dXNlBasic cjpwYXNz'' \<noteq> ''Basic '' @ base64 ''user:pass''
   \<and> handlePhonePeWebhook_salt example_decode example_env completed_body
      (Some (sha256_hex ''{"data":{"response":"eyJzdGF0ZSI6IkNPTVBMRVRFRCJ9"}}SALT1'' @ ''###1''))
      (Some ''dXNlBasic cjpwYXNz'')
     = Inr (JObj [(''valid'', JBool True), (''transactionId'', JUndefined),
                  (''status'', JStr ''COMPLETED''), (''responseCode'', JUndefined),
                  (''amount'', JUndefined), (''timestamp'', JUndefined),
                  (''success'', JBool True)])\<close>
proof -
  have b: "base64 ''user:pass'' = ''dXNlcjpwYXNz''"
    by (simp add: base64_def b64chars_def)
  have 1: "''dXNlBasic cjpwYXNz'' \<noteq> base64 ''user:pass''"
    "''dXNlBasic cjpwYXNz'' \<noteq> ''Basic '' @ base64 ''user:pass''"
    by (simp_all add: b)
  have p: "providedAuth (Some ''dXNlBasic cjpwYXNz'') = ''dXNlcjpwYXNz''"
    by (simp add: providedAuth_def)
  have d: "get_prop completed_body ''data'' = Inr (JObj [(''response'', JStr ''eyJzdGF0ZSI6IkNPTVBMRVRFRCJ9'')])"
    by (simp add: completed_body_def)
  have r: "phonepe_result (JObj [(''state'', JStr ''COMPLETED'')])
     = Inr (JObj [(''valid'', JBool True), (''transactionId'', JUndefined),
                  (''status'', JStr ''COMPLETED''), (''responseCode'', JUndefined),
                  (''amount'', JUndefined), (''timestamp'', JUndefined),
                  (''success'', JBool True)])"
    by (simp add: phonepe_result_def opt_prop_def)
  have 2: \<open>handlePhonePeWebhook_salt example_decode example_env completed_body
      (Some (sha256_hex ''{"data":{"response":"eyJzdGF0ZSI6IkNPTVBMRVRFRCJ9"}}SALT1'' @ ''###1''))
      (Some ''dXNlBasic cjpwYXNz'')
     = Inr (JObj [(''valid'', JBool True), (''transactionId'', JUndefined),
                  (''status'', JStr ''COMPLETED''), (''responseCode'', JUndefined),
                  (''amount'', JUndefined), (''timestamp'', JUndefined),
                  (''success'', JBool True)])\<close>
    using verify_example [of \<open>''{"data":{"response":"eyJzdGF0ZSI6IkNPTVBMRVRFRCJ9"}}''\<close>]
    by (simp add: handlePhonePeWebhook_salt_def expectedAuth_example p
        stringify_completed d r example_decode_def)
  from 1 2 show ?thesis by blast
qed

section \<open>Amount conversion\<close>

lemma bitlen_pos: "0 < n \<Longrightarrow> 0 < bitlen n"
  by (subst bitlen.simps) simp

lemma bitlen_bounds: "0 < n \<Longrightarrow> 2 ^ (bitlen n - 1) \<le> n \<and> n < 2 ^ bitlen n"
proof (induction n rule: bitlen.induct)
  case (1 n)
  show ?case
  proof (cases "n div 2 \<le> 0")
    case True
    with "1.prems" have "n = 1" by linarith
    then show ?thesis by (simp add: bitlen.simps)
  next
    case False
    then have h: "0 < n div 2" by simp
    with "1.prems" "1.IH" have ih: "2 ^ (bitlen (n div 2) - 1) \<le> n div 2" "n div 2 < 2 ^ bitlen (n div 2)"
      by auto
    have b: "bitlen n = Suc (bitlen (n div 2))"
      using "1.prems" by (subst bitlen.simps) simp
    have p: "0 < bitlen (n div 2)" using h by (rule bitlen_pos)
    then have e: "(2::int) ^ bitlen (n div 2) = 2 * 2 ^ (bitlen (n div 2) - 1)"
      by (cases "bitlen (n div 2)") simp_all
    have lo: "2 ^ bitlen (n div 2) \<le> n" using ih(1) e by linarith
    have hi: "n < 2 * 2 ^ bitlen (n div 2)" using ih(2) by linarith
    show ?thesis using lo hi by (simp add: b)
  qed
qed

lemma pow2_pos: "0 < pow2 e"
  by (simp add: pow2_def)

lemma pow2_Suc: "pow2 (e + 1) = 2 * pow2 e"
proof (cases "0 \<le> e")
  case True
  then show ?thesis by (simp add: pow2_def nat_add_distrib)
next
  case False
  then have "nat (- e) = Suc (nat (- (e + 1)))" by simp
  then show ?thesis using False by (simp add: pow2_def)
qed

lemma pow2_diff: "pow2 (int a - int b) = 2 ^ a / 2 ^ b"
proof (cases "b \<le> a")
  case True
  then have "nat (int a - int b) = a - b" by simp
  then show ?thesis using True by (simp add: pow2_def power_diff)
next
  case False
  then have "nat (- (int a - int b)) = b - a" by simp
  moreover have "(2::rat) ^ b = 2 ^ (b - a) * 2 ^ a"
    using False by (simp flip: power_add)
  ultimately show ?thesis using False by (simp add: pow2_def)
qed

lemma ilog2_lower: assumes "0 < q" shows "pow2 (ilog2 q) \<le> q"
proof -
  obtain a b where ab: "quotient_of q = (a, b)" by (cases "quotient_of q")
  then have b: "0 < b" using quotient_of_denom_pos by blast
  have q: "q = of_int a / of_int b" using ab by (rule quotient_of_div)
  have a: "0 < a" using assms b q by (simp add: zero_less_divide_iff)
  let ?d = "int (bitlen a) - int (bitlen b)"
  show ?thesis
  proof (cases "pow2 ?d \<le> q")
    case True
    then show ?thesis by (simp add: ilog2_def ab Let_def)
  next
    case False
    then have i: "ilog2 q = ?d - 1" by (simp add: ilog2_def ab Let_def)
    have la: "(2::rat) ^ (bitlen a - 1) \<le> of_int a"
    proof -
      have "(2::int) ^ (bitlen a - 1) \<le> a" using bitlen_bounds [OF a] by simp
      then have "of_int ((2::int) ^ (bitlen a - 1)) \<le> (of_int a :: rat)" by (simp only: of_int_le_iff)
      then show ?thesis by simp
    qed
    have lb: "(of_int b :: rat) \<le> 2 ^ bitlen b"
    proof -
      have "b \<le> (2::int) ^ bitlen b" using bitlen_bounds [OF b] by simp
      then have "(of_int b :: rat) \<le> of_int ((2::int) ^ bitlen b)" by (simp only: of_int_le_iff)
      then show ?thesis by simp
    qed
    have eq: "int (bitlen a - 1) - int (bitlen b) = ?d - 1"
      using bitlen_pos [OF a] by simp
    have "pow2 (?d - 1) = 2 ^ (bitlen a - 1) / 2 ^ bitlen b"
      using pow2_diff [of "bitlen a - 1" "bitlen b"] unfolding eq .
    also have "\<dots> \<le> of_int a / of_int b"
      using la lb a b by (intro frac_le) simp_all
    finally show ?thesis using i q by simp
  qed
qed

lemma round_half_even_error: "\<bar>of_int (round_half_even m) - m\<bar> \<le> 1 / 2"
proof -
  have "of_int \<lfloor>m\<rfloor> \<le> m" "m < of_int \<lfloor>m\<rfloor> + 1" by linarith+
  then show ?thesis by (auto simp: round_half_even_def Let_def)
qed

lemma fl_pos_error: assumes "0 < q" shows "\<bar>fl_pos q - q\<bar> \<le> q / 2 ^ 53"
proof -
  define e where "e = ilog2 q - 52"
  define m where "m = q / pow2 e"
  have p: "0 < pow2 e" by (rule pow2_pos)
  have f: "fl_pos q = of_int (round_half_even m) * pow2 e"
    by (simp add: fl_pos_def e_def m_def Let_def)
  have qm: "q = m * pow2 e" using p by (simp add: m_def)
  have "fl_pos q - q = (of_int (round_half_even m) - m) * pow2 e"
    using f qm by (simp add: left_diff_distrib)
  then have "\<bar>fl_pos q - q\<bar> = \<bar>of_int (round_half_even m) - m\<bar> * pow2 e"
    using p by (simp add: abs_mult)
  also have "\<dots> \<le> 1 / 2 * pow2 e"
    using round_half_even_error [of m] p by (intro mult_right_mono) simp_all
  finally have 1: "\<bar>fl_pos q - q\<bar> \<le> pow2 e / 2" by simp
  have "pow2 (ilog2 q) = 2 ^ 52 * pow2 e"
  proof -
    have "pow2 (e + int n) = 2 ^ n * pow2 e" for n
    proof (induction n)
      case 0
      then show ?case by simp
    next
      case (Suc n)
      have "e + int (Suc n) = (e + int n) + 1" by simp
      then have "pow2 (e + int (Suc n)) = 2 * pow2 (e + int n)" by (simp only: pow2_Suc)
      with Suc show ?case by simp
    qed
    from this [of 52] show ?thesis by (simp add: e_def)
  qed
  with ilog2_lower [OF assms] have "2 ^ 52 * pow2 e \<le> q" by simp
  then have "pow2 e / 2 \<le> q / 2 ^ 53" by simp
  with 1 show ?thesis by linarith
qed

lemma fl_error: "0 \<le> q \<Longrightarrow> \<bar>fl q - q\<bar> \<le> q / 2 ^ 53"
  using fl_pos_error [of q] by (cases "q = 0") (simp_all add: fl_def)

lemma Math_round_near: assumes "\<bar>p - of_int k\<bar> < 1 / 2" shows "Math_round p = k"
proof -
  from assms have "of_int k \<le> p + 1 / 2" "p + 1 / 2 < of_int k + 1" by linarith+
  then show ?thesis unfolding Math_round_def by (rule floor_unique)
qed

lemma amountInPaise_two_decimals:
  assumes "0 \<le> k" and "k < 2 ^ 50"
  shows "amountInPaise (parse_decimal (of_int k / 100)) = k"
proof -
  define x :: rat where "x = of_int k / 100"
  define d where "d = fl x"
  define p where "p = fl (d * 100)"
  have x0: "0 \<le> x" using assms(1) by (simp add: x_def)
  have kx: "of_int k = x * 100" by (simp add: x_def)
  have xb: "x * 100 < 2 ^ 50"
  proof -
    have "(of_int k :: rat) < of_int (2 ^ 50)" using assms(2) by (simp only: of_int_less_iff)
    then show ?thesis by (simp add: kx)
  qed
  have 1: "\<bar>d - x\<bar> \<le> x / 2 ^ 53" unfolding d_def using x0 by (rule fl_error)
  have e1: "\<bar>d - x\<bar> \<le> x / 9007199254740992" using 1 by simp
  have d0: "0 \<le> d" using e1 x0 by linarith
  have 2: "\<bar>p - d * 100\<bar> \<le> d * 100 / 2 ^ 53" unfolding p_def using d0 by (intro fl_error) simp
  have e2: "\<bar>p - d * 100\<bar> \<le> d * 100 / 9007199254740992" using 2 by simp
  have xb': "x * 100 < 1125899906842624" using xb by simp
  have "\<bar>p - x * 100\<bar> < 1 / 2"
    using e1 e2 xb' x0 by linarith
  then have "Math_round p = k" using kx by (intro Math_round_near) simp
  then show ?thesis by (simp add: amountInPaise_def parse_decimal_def p_def d_def x_def)
qed

text \<open>
  C9 (amended). The conversion is \<^verbatim>\<open>Math.round(amount * 100)\<close> on doubles. For every
  non-negative amount with at most two decimal places, \<open>k / 100\<close> with \<open>k < 2\<^sup>5\<^sup>0\<close>, it
  gives \<open>k\<close>, which is \<open>round (x * 100)\<close>; it maps 499 to 49900 and 19.999 to 2000.
\<close>

theorem amountInPaise_money:
  "(0 \<le> k \<and> k < 2 ^ 50 \<longrightarrow>
      amountInPaise (parse_decimal (of_int k / 100)) = round (of_int k / 100 * 100 :: rat)
      \<and> amountInPaise (parse_decimal (of_int k / 100)) = k)
   \<and> amountInPaise (parse_decimal (19999 / 1000)) = 2000
   \<and> round (19999 / 1000 * 100 :: rat) = 2000"
proof -
  have a: "amountInPaise (parse_decimal (19999 / 1000)) = 2000" by code_simp
  have b: "round (19999 / 1000 * 100 :: rat) = 2000" by code_simp
  show ?thesis using a b amountInPaise_two_decimals [of k] by simp
qed

theorem amountInPaise_money_witness:
  "amountInPaise (parse_decimal 499) = 49900 \<and> round (499 * 100 :: rat) = 49900"
  using amountInPaise_money [of 49900] by simp

text \<open>
  C9 as stated fails: the decimal 1.005 is converted to 100, and \<open>round (1.005 * 100)\<close>
  is 101.
\<close>

theorem amountInPaise_counterexample:
  "amountInPaise (parse_decimal (1005 / 1000)) = 100 \<and> round (1005 / 1000 * 100 :: rat) = 101"
proof -
  have a: "amountInPaise (parse_decimal (1005 / 1000)) = 100" by code_simp
  have b: "round (1005 / 1000 * 100 :: rat) = 101" by code_simp
  from a b show ?thesis by blast
qed

end
